theory Spec2Isabelle
  imports Complex_Main
begin

section \<open>The data servicer of the Ray client server\<close>

text \<open>
  A shallow embedding of \<^verbatim>\<open>python/ray/util/client/server/dataservicer.py\<close>: the
  admission check \<^verbatim>\<open>DataServicer._init\<close>, the dispatch loop of
  \<^verbatim>\<open>DataServicer.Datapath\<close>, its fault handler and its teardown block.

  The servicer's attributes are a record that every operation takes and returns.
  Calls that leave the file (the backend \<^verbatim>\<open>basic_service\<close>, the response cache, the
  registry lock, the \<^verbatim>\<open>stopped\<close> event, \<^verbatim>\<open>ray.shutdown\<close>) and the writes to
  \<^verbatim>\<open>num_clients\<close> are appended, in program order, to the \<open>trace\<close> field, so that "is
  invoked", "is consulted" and "while the lock is held" are statements about that
  list. Python exceptions are values of type \<open>fault\<close>. Timestamps are reals, compared
  as the floats are. Logging and the join of the reader thread are left out; what the
  reader thread and the asynchronous gets put on the queue is the list of items that
  the loop takes.
\<close>

subsection \<open>gRPC context and metadata\<close>

datatype status_code = RESOURCE_EXHAUSTED | NOT_FOUND | FAILED_PRECONDITION | OTHER_STATUS string

record grpc_context =
  invocation_metadata :: "(string \<times> string) list"
  code :: "status_code option"
  details :: "string option"

text \<open>
  \<^verbatim>\<open>metadata = {k: v for k, v in context.invocation_metadata()}\<close>: of two pairs with
  one key the later one stays.
\<close>

definition metadata_dict :: "grpc_context \<Rightarrow> string \<rightharpoonup> string" where
  "metadata_dict ctx = map_of (rev (invocation_metadata ctx))"

definition get_reconnecting_from_context :: "grpc_context \<Rightarrow> bool" where
  "get_reconnecting_from_context ctx =
     (let val = metadata_dict ctx ''reconnecting'' in
      if val = None \<or> val \<notin> {Some ''True'', Some ''False''} then False
      else val = Some ''True'')"

subsection \<open>Requests, responses, faults\<close>

text \<open>
  A \<^verbatim>\<open>DataRequest\<close>: \<open>req_type\<close> is what \<^verbatim>\<open>req.WhichOneof("type")\<close> returns (\<open>None\<close>
  when no member of the oneof is set); the other fields are the attributes the
  handler reads from the submessages (\<^verbatim>\<open>req.init.reconnect_grace_period\<close>,
  \<^verbatim>\<open>req.get.asynchronous\<close>, \<^verbatim>\<open>req.release.ids\<close>, \<^verbatim>\<open>req.acknowledge.req_id\<close>), and
  \<open>payload\<close> stands for the rest of the submessage, which only the backend reads.
\<close>

record data_request =
  req_id :: int
  req_type :: "string option"
  reconnect_grace_period :: int
  asynchronous :: bool
  release_ids :: "string list"
  acknowledge_req_id :: int
  payload :: string

text \<open>What a backend capability returns: \<^verbatim>\<open>None\<close>, an opaque message, or a flag.\<close>

datatype bresult = BNone | BVal string | BBool bool

datatype fault = Unreachable "string option" | Fault string

record connection_info =
  ci_num_clients :: int
  ci_python_version :: string
  ci_ray_version :: string
  ci_ray_commit :: string
  ci_protocol_version :: string

datatype response_body =
    InitResponse bresult
  | GetResponse bresult
  | PutResponse bresult
  | ReleaseResponse "bresult list"
  | ConnectionInfoResponse connection_info
  | PrepRuntimeEnvResponse bresult
  | ConnectionCleanupResponse

text \<open>A \<^verbatim>\<open>DataResponse\<close>: the member of its oneof and its \<^verbatim>\<open>req_id\<close>.\<close>

datatype data_response = DataResponse response_body int

text \<open>
  The shared queue holds requests read from the stream and responses that an
  asynchronous get pushed onto it; the sentinel \<^verbatim>\<open>None\<close> ends the list.
\<close>

datatype queue_item = Req data_request | Resp data_response

definition should_cache :: "data_request \<Rightarrow> bool" where
  "should_cache req =
     (let req_type = req_type req in
      req_type \<notin> {Some ''acknowledge'', Some ''connection_cleanup'', Some ''get''})"

subsection \<open>The response cache\<close>

text \<open>
  Modelled from the spec: the class \<^verbatim>\<open>OrderedResponseCache\<close> of
  \<^verbatim>\<open>ray.util.client.common\<close> is imported by the servicer and is not among the source
  files. The spec's contract (section 4.1): \<^verbatim>\<open>check_cache\<close> returns a cached response
  if present, a recorded failure, or "absent"; \<^verbatim>\<open>update_cache\<close> stores the response
  unless one is stored for that id; \<^verbatim>\<open>cleanup\<close> removes the entry of an acknowledged
  id and is a no-op if absent; \<^verbatim>\<open>invalidate\<close> marks the cache broken and records the
  error, and from then on \<^verbatim>\<open>check_cache\<close> returns that error for any id.
\<close>

record response_cache =
  entries :: "int \<rightharpoonup> data_response"
  broken :: "fault option"

datatype cache_result = Absent | Hit data_response | Failure fault

definition empty_cache :: response_cache where
  "empty_cache = \<lparr>entries = Map.empty, broken = None\<rparr>"

definition check_cache :: "response_cache \<Rightarrow> int \<Rightarrow> cache_result" where
  "check_cache c i =
     (case broken c of
        Some e \<Rightarrow> Failure e
      | None \<Rightarrow> (case entries c i of None \<Rightarrow> Absent | Some r \<Rightarrow> Hit r))"

definition update_cache :: "response_cache \<Rightarrow> int \<Rightarrow> data_response \<Rightarrow> response_cache" where
  "update_cache c i r =
     (case entries c i of
        None \<Rightarrow> c\<lparr>entries := (entries c)(i \<mapsto> r)\<rparr>
      | Some _ \<Rightarrow> c)"

definition cleanup :: "response_cache \<Rightarrow> int \<Rightarrow> response_cache" where
  "cleanup c i = c\<lparr>entries := (entries c)(i := None)\<rparr>"

subsection \<open>The servicer\<close>

text \<open>The capabilities of \<^verbatim>\<open>basic_service\<close> that the servicer invokes, with their arguments.\<close>

datatype call =
    Init string int
  | get_object string string
  | async_get_object string string int
  | put_object string string
  | release string string
  | PrepRuntimeEnv string
  | release_all string

datatype event =
    LockAcquire
  | LockRelease
  | BackendCall call
  | CacheCheck nat int
  | CacheUpdate nat int
  | CacheCleanup nat int
  | CacheInvalidate nat fault
  | CounterWrite int
  | StoppedWait int
  | RayShutdown

text \<open>
  What the file takes from outside. \<^verbatim>\<open>CLIENT_SERVER_MAX_THREADS\<close>,
  \<^verbatim>\<open>_propagate_error_in_context\<close> and the flag that \<^verbatim>\<open>invalidate\<close> returns are defined in
  \<^verbatim>\<open>ray.util.client.common\<close>, the backend in \<^verbatim>\<open>server.py\<close>; they are parameters here.
  A capability returns a result or raises, and may change the backend's own state \<open>'b\<close>.
\<close>

record 'b environment =
  CLIENT_SERVER_MAX_THREADS :: real
  basic_service :: "call \<Rightarrow> 'b \<Rightarrow> (fault + bresult) \<times> 'b"
  propagate_error_in_context :: "fault \<Rightarrow> grpc_context \<Rightarrow> bool \<times> grpc_context"
  invalidate_refused :: "fault \<Rightarrow> response_cache \<Rightarrow> bool"
  python_version :: string
  ray_version :: string
  ray_commit :: string
  CURRENT_PROTOCOL_VERSION :: string

text \<open>
  The attributes of \<^verbatim>\<open>DataServicer\<close>. \<^verbatim>\<open>response_caches\<close> maps a client id to a cache
  object; the connection handler keeps a reference to the object while the
  dictionary entry may be deleted, so the objects live in \<open>cache_heap\<close> and the
  dictionary holds addresses. \<open>next_cache\<close> is the next unused address.
\<close>

record 'b servicer =
  num_clients :: int
  client_last_seen :: "string \<rightharpoonup> real"
  reconnect_grace_periods :: "string \<rightharpoonup> int"
  response_caches :: "string \<rightharpoonup> nat"
  cache_heap :: "nat \<Rightarrow> response_cache"
  next_cache :: nat
  backend :: 'b
  trace :: "event list"

text \<open>\<^verbatim>\<open>DataServicer.__init__\<close>\<close>

definition new_servicer :: "'b \<Rightarrow> 'b servicer" where
  "new_servicer b =
     \<lparr>num_clients = 0, client_last_seen = Map.empty, reconnect_grace_periods = Map.empty,
      response_caches = Map.empty, cache_heap = (\<lambda>_. empty_cache), next_cache = 0,
      backend = b, trace = []\<rparr>"

definition emit :: "event \<Rightarrow> 'b servicer \<Rightarrow> 'b servicer" where
  "emit e s = s\<lparr>trace := trace s @ [e]\<rparr>"

text \<open>Python's \<^verbatim>\<open>int(x)\<close> on a float: truncation towards zero.\<close>

definition py_int :: "real \<Rightarrow> int" where
  "py_int x = (if 0 \<le> x then \<lfloor>x\<rfloor> else \<lceil>x\<rceil>)"

definition threshold :: "'b environment \<Rightarrow> int" where
  "threshold env = py_int (CLIENT_SERVER_MAX_THREADS env / 2)"

subsection \<open>Admission\<close>

text \<open>
  \<^verbatim>\<open>DataServicer._init\<close>, the whole body under \<^verbatim>\<open>clients_lock\<close>. It returns the flag,
  the context with the status it set, and the servicer.
\<close>

definition DataServicer_init ::
  "'b environment \<Rightarrow> string \<Rightarrow> grpc_context \<Rightarrow> real \<Rightarrow> 'b servicer
     \<Rightarrow> bool \<times> grpc_context \<times> 'b servicer" where
  "DataServicer_init env client_id ctx start_time s0 =
     (let s = emit LockAcquire s0;
          reconnecting = get_reconnecting_from_context ctx;
          threshold = threshold env
      in
      if num_clients s \<ge> threshold then
        (False, ctx\<lparr>code := Some RESOURCE_EXHAUSTED\<rparr>, emit LockRelease s)
      else if reconnecting \<and> client_id \<notin> dom (client_last_seen s) then
        (False,
         ctx\<lparr>code := Some NOT_FOUND,
             details := Some ''Attempted to reconnect to a session that has already been cleaned up.''\<rparr>,
         emit LockRelease s)
      else
        (let s1 = (if client_id \<in> dom (client_last_seen s) then s
                   else emit (CounterWrite (num_clients s + 1)) (s\<lparr>num_clients := num_clients s + 1\<rparr>));
             s2 = s1\<lparr>client_last_seen := (client_last_seen s1)(client_id \<mapsto> start_time)\<rparr>
         in (True, ctx, emit LockRelease s2)))"

subsection \<open>The dispatch loop\<close>

text \<open>A call of a backend capability: its result or fault, the backend's new state, and the call in the trace.\<close>

definition call_backend ::
  "'b environment \<Rightarrow> call \<Rightarrow> 'b servicer \<Rightarrow> (fault + bresult) \<times> 'b servicer" where
  "call_backend env c s =
     (let (r, b) = basic_service env c (backend s)
      in (r, s\<lparr>backend := b, trace := trace s @ [BackendCall c]\<rparr>))"

text \<open>The handler's local variables that the loop changes.\<close>

record locals =
  cleanup_requested :: bool
  reconnect_enabled :: bool

text \<open>
  How the body of the loop ends for one item: \<^verbatim>\<open>continue\<close> without a response,
  \<^verbatim>\<open>yield\<close> of a response, or an exception.
\<close>

datatype outcome = Continue | Yield data_response | Raise fault

text \<open>\<^verbatim>\<open>_build_connection_response\<close>: the counter is read under the lock.\<close>

definition build_connection_response ::
  "'b environment \<Rightarrow> 'b servicer \<Rightarrow> connection_info \<times> 'b servicer" where
  "build_connection_response env s =
     (let s1 = emit LockAcquire s;
          cur_num_clients = num_clients s1;
          s2 = emit LockRelease s1
      in (\<lparr>ci_num_clients = cur_num_clients, ci_python_version = python_version env,
           ci_ray_version = ray_version env, ci_ray_commit = ray_commit env,
           ci_protocol_version = CURRENT_PROTOCOL_VERSION env\<rparr>, s2))"

text \<open>
  The \<^verbatim>\<open>for rel_id in req.release.ids\<close> loop: one \<^verbatim>\<open>release\<close> call for each id, the
  results appended to \<^verbatim>\<open>released\<close>; a call that raises ends it.
\<close>

fun release_each ::
  "'b environment \<Rightarrow> string \<Rightarrow> string list \<Rightarrow> bresult list \<Rightarrow> 'b servicer
     \<Rightarrow> (fault + bresult list) \<times> 'b servicer" where
  "release_each env client_id [] released s = (Inr released, s)"
| "release_each env client_id (rel_id # ids) released s =
     (case call_backend env (release client_id rel_id) s of
        (Inl e, s1) \<Rightarrow> (Inl e, s1)
      | (Inr rel, s1) \<Rightarrow> release_each env client_id ids (released @ [rel]) s1)"

text \<open>
  The end of the loop body (\<^verbatim>\<open>resp.req_id = req.req_id\<close>, the cache update when the
  request is cacheable and reconnection is enabled, \<^verbatim>\<open>yield resp\<close>). \<open>a\<close> is the
  address of the connection's \<^verbatim>\<open>response_cache\<close>.
\<close>

definition finish ::
  "nat \<Rightarrow> data_request \<Rightarrow> response_body \<Rightarrow> locals \<Rightarrow> 'b servicer
     \<Rightarrow> outcome \<times> locals \<times> 'b servicer" where
  "finish a req body l s =
     (let resp = DataResponse body (req_id req);
          s1 = (if should_cache req \<and> reconnect_enabled l then
                  s\<lparr>cache_heap := (cache_heap s)(a := update_cache (cache_heap s a) (req_id req) resp),
                    trace := trace s @ [CacheUpdate a (req_id req)]\<rparr>
                else s)
      in (Yield resp, l, s1))"

text \<open>The \<^verbatim>\<open>if req_type == ... elif ... else\<close> chain of the loop body, in the source's order.\<close>

definition dispatch ::
  "'b environment \<Rightarrow> string \<Rightarrow> nat \<Rightarrow> data_request \<Rightarrow> locals \<Rightarrow> 'b servicer
     \<Rightarrow> outcome \<times> locals \<times> 'b servicer" where
  "dispatch env client_id a req l s =
     (let req_type = req_type req in
      if req_type = Some ''init'' then
        (case call_backend env (Init (payload req) (reconnect_grace_period req)) s of
           (Inl e, s1) \<Rightarrow> (Raise e, l, s1)
         | (Inr resp_init, s1) \<Rightarrow>
             (let s2 = emit LockAcquire s1;
                  s3 = s2\<lparr>reconnect_grace_periods :=
                             (reconnect_grace_periods s2)(client_id \<mapsto> reconnect_grace_period req)\<rparr>;
                  l1 = (if reconnect_grace_period req = 0 then l\<lparr>reconnect_enabled := False\<rparr> else l);
                  s4 = emit LockRelease s3
              in finish a req (InitResponse resp_init) l1 s4))
      else if req_type = Some ''get'' then
        (if asynchronous req then
           (case call_backend env (async_get_object (payload req) client_id (req_id req)) s of
              (Inl e, s1) \<Rightarrow> (Raise e, l, s1)
            | (Inr get_resp, s1) \<Rightarrow>
                if get_resp = BNone then (Continue, l, s1)
                else finish a req (GetResponse get_resp) l s1)
         else
           (case call_backend env (get_object (payload req) client_id) s of
              (Inl e, s1) \<Rightarrow> (Raise e, l, s1)
            | (Inr get_resp, s1) \<Rightarrow> finish a req (GetResponse get_resp) l s1))
      else if req_type = Some ''put'' then
        (case call_backend env (put_object (payload req) client_id) s of
           (Inl e, s1) \<Rightarrow> (Raise e, l, s1)
         | (Inr put_resp, s1) \<Rightarrow> finish a req (PutResponse put_resp) l s1)
      else if req_type = Some ''release'' then
        (case release_each env client_id (release_ids req) [] s of
           (Inl e, s1) \<Rightarrow> (Raise e, l, s1)
         | (Inr released, s1) \<Rightarrow> finish a req (ReleaseResponse released) l s1)
      else if req_type = Some ''connection_info'' then
        (let (info, s1) = build_connection_response env s
         in finish a req (ConnectionInfoResponse info) l s1)
      else if req_type = Some ''prep_runtime_env'' then
        (case call_backend env (PrepRuntimeEnv (payload req)) (emit LockAcquire s) of
           (Inl e, s1) \<Rightarrow> (Raise e, l, emit LockRelease s1)
         | (Inr resp_prep, s1) \<Rightarrow>
             finish a req (PrepRuntimeEnvResponse resp_prep) l (emit LockRelease s1))
      else if req_type = Some ''connection_cleanup'' then
        finish a req ConnectionCleanupResponse (l\<lparr>cleanup_requested := True\<rparr>) s
      else if req_type = Some ''acknowledge'' then
        (Continue, l,
         s\<lparr>cache_heap := (cache_heap s)(a := cleanup (cache_heap s a) (acknowledge_req_id req)),
           trace := trace s @ [CacheCleanup a (acknowledge_req_id req)]\<rparr>)
      else (Raise (Unreachable req_type), l, s))"

text \<open>
  The loop body for one item of the queue: a response is yielded as it is; a request
  is looked up in the cache when it is cacheable and reconnection is enabled, and
  dispatched when the cache has nothing for its id.
\<close>

definition process_item ::
  "'b environment \<Rightarrow> string \<Rightarrow> nat \<Rightarrow> queue_item \<Rightarrow> locals \<Rightarrow> 'b servicer
     \<Rightarrow> outcome \<times> locals \<times> 'b servicer" where
  "process_item env client_id a item l s =
     (case item of
        Resp r \<Rightarrow> (Yield r, l, s)
      | Req req \<Rightarrow>
          if should_cache req \<and> reconnect_enabled l then
            (let cached_resp = check_cache (cache_heap s a) (req_id req);
                 s1 = emit (CacheCheck a (req_id req)) s
             in case cached_resp of
                  Failure e \<Rightarrow> (Raise e, l, s1)
                | Hit r \<Rightarrow> (Yield r, l, s1)
                | Absent \<Rightarrow> dispatch env client_id a req l s1)
          else dispatch env client_id a req l s)"

text \<open>
  \<^verbatim>\<open>for req in iter(request_queue.get, None)\<close> over the items dequeued before the
  sentinel. The result: the responses yielded, the exception that left the loop if
  one did, the locals and the servicer.
\<close>

fun dispatch_loop ::
  "'b environment \<Rightarrow> string \<Rightarrow> nat \<Rightarrow> queue_item list \<Rightarrow> locals \<Rightarrow> 'b servicer
     \<Rightarrow> data_response list \<times> fault option \<times> locals \<times> 'b servicer" where
  "dispatch_loop env client_id a [] l s = ([], None, l, s)"
| "dispatch_loop env client_id a (item # items) l s =
     (case process_item env client_id a item l s of
        (Raise e, l1, s1) \<Rightarrow> ([], Some e, l1, s1)
      | (Continue, l1, s1) \<Rightarrow> dispatch_loop env client_id a items l1 s1
      | (Yield r, l1, s1) \<Rightarrow>
          (let (out, f, l2, s2) = dispatch_loop env client_id a items l1 s1
           in (r # out, f, l2, s2)))"

subsection \<open>The fault handler and the teardown block\<close>

text \<open>
  Modelled from the spec: \<^verbatim>\<open>OrderedResponseCache.invalidate\<close> is not among the source
  files. It marks the cache broken with the error; the flag it returns ("the cache
  refuses to record it") is the environment's.
\<close>

definition invalidate :: "'b environment \<Rightarrow> response_cache \<Rightarrow> fault \<Rightarrow> bool \<times> response_cache" where
  "invalidate env c e = (invalidate_refused env e c, c\<lparr>broken := Some e\<rparr>)"

text \<open>The \<^verbatim>\<open>except Exception as e\<close> block.\<close>

definition handle_fault ::
  "'b environment \<Rightarrow> nat \<Rightarrow> fault \<Rightarrow> grpc_context \<Rightarrow> locals \<Rightarrow> 'b servicer
     \<Rightarrow> grpc_context \<times> locals \<times> 'b servicer" where
  "handle_fault env a e ctx l s =
     (let (recoverable, ctx1) = propagate_error_in_context env e ctx;
          (invalid_cache, c) = invalidate env (cache_heap s a) e;
          s1 = s\<lparr>cache_heap := (cache_heap s)(a := c), trace := trace s @ [CacheInvalidate a e]\<rparr>
      in if \<not> recoverable \<or> invalid_cache then
           (ctx1\<lparr>code := Some FAILED_PRECONDITION\<rparr>, l\<lparr>cleanup_requested := True\<rparr>, s1)
         else (ctx1, l, s1))"

text \<open>
  The first half of the \<^verbatim>\<open>finally\<close> block: the wait on the \<^verbatim>\<open>stopped\<close> event, with
  the recorded grace period as its timeout, when cleanup was not requested and a
  grace period is recorded.
\<close>

definition teardown_wait :: "string \<Rightarrow> locals \<Rightarrow> 'b servicer \<Rightarrow> 'b servicer" where
  "teardown_wait client_id l s =
     (let cleanup_delay = reconnect_grace_periods s client_id in
      if \<not> cleanup_requested l \<and> cleanup_delay \<noteq> None then
        emit (StoppedWait (the cleanup_delay)) s
      else s)"

text \<open>
  The second half, under \<^verbatim>\<open>clients_lock\<close>. The fault is the exception that leaves the
  block when \<^verbatim>\<open>release_all\<close> raises.
\<close>

definition teardown_locked ::
  "'b environment \<Rightarrow> string \<Rightarrow> real \<Rightarrow> 'b servicer \<Rightarrow> fault option \<times> 'b servicer" where
  "teardown_locked env client_id start_time s0 =
     (let s = emit LockAcquire s0 in
      case client_last_seen s client_id of
        None \<Rightarrow> (None, emit LockRelease s)
      | Some last_seen \<Rightarrow>
          if last_seen > start_time then (None, emit LockRelease s)
          else
            (case call_backend env (release_all client_id) s of
               (Inl e, s1) \<Rightarrow> (Some e, emit LockRelease s1)
             | (Inr _, s1) \<Rightarrow>
                 (let s2 = s1\<lparr>client_last_seen := (client_last_seen s1)(client_id := None)\<rparr>;
                      s3 = (if client_id \<in> dom (reconnect_grace_periods s2) then
                              s2\<lparr>reconnect_grace_periods :=
                                   (reconnect_grace_periods s2)(client_id := None)\<rparr>
                            else s2);
                      s4 = (if client_id \<in> dom (response_caches s3) then
                              s3\<lparr>response_caches := (response_caches s3)(client_id := None)\<rparr>
                            else s3);
                      s5 = emit (CounterWrite (num_clients s4 - 1))
                             (s4\<lparr>num_clients := num_clients s4 - 1\<rparr>);
                      s6 = (if num_clients s5 = 0 then emit RayShutdown s5 else s5)
                  in (None, emit LockRelease s6))))"

subsection \<open>The connection handler\<close>

text \<open>
  \<^verbatim>\<open>response_cache = self.response_caches[client_id]\<close> on a \<^verbatim>\<open>defaultdict\<close>: a missing
  key gets a new, empty cache.
\<close>

definition get_response_cache :: "string \<Rightarrow> 'b servicer \<Rightarrow> nat \<times> 'b servicer" where
  "get_response_cache client_id s =
     (case response_caches s client_id of
        Some a \<Rightarrow> (a, s)
      | None \<Rightarrow>
          (next_cache s,
           s\<lparr>response_caches := (response_caches s)(client_id \<mapsto> next_cache s),
             cache_heap := (cache_heap s)(next_cache s := empty_cache),
             next_cache := Suc (next_cache s)\<rparr>))"

text \<open>
  \<^verbatim>\<open>DataServicer.Datapath\<close> for one connection whose queue delivers \<open>items\<close> and then
  the sentinel. (A generator that is closed at a \<^verbatim>\<open>yield\<close> goes to the \<^verbatim>\<open>finally\<close>
  block with its locals as they are: that is the run on the items up to there.)
  \<open>others\<close> is what the other connections do to the servicer while this one waits
  for its grace period outside the lock. The result: the responses yielded, the
  context, the exception that leaves the handler if one does, and the servicer.
\<close>

definition Datapath ::
  "'b environment \<Rightarrow> grpc_context \<Rightarrow> real \<Rightarrow> queue_item list \<Rightarrow> ('b servicer \<Rightarrow> 'b servicer)
     \<Rightarrow> 'b servicer \<Rightarrow> data_response list \<times> grpc_context \<times> fault option \<times> 'b servicer" where
  "Datapath env ctx start_time items others s =
     (case metadata_dict ctx ''client_id'' of
        None \<Rightarrow> ([], ctx, None, s)
      | Some client_id \<Rightarrow>
          (let (accepted_connection, ctx1, s1) = DataServicer_init env client_id ctx start_time s;
               (a, s2) = get_response_cache client_id s1
           in if \<not> accepted_connection then ([], ctx1, None, s2)
              else
                (let (out, f, l, s3) =
                       dispatch_loop env client_id a items
                         \<lparr>cleanup_requested = False, reconnect_enabled = True\<rparr> s2;
                     (ctx2, l1, s4) =
                       (case f of
                          None \<Rightarrow> (ctx1, l, s3)
                        | Some e \<Rightarrow> handle_fault env a e ctx1 l s3);
                     s5 = teardown_wait client_id l1 s4;
                     (f1, s6) = teardown_locked env client_id start_time (others s5)
                 in (out, ctx2, f1, s6))))"

subsection \<open>Traces and executions\<close>

text \<open>The events by which the loop consults or fills the response cache.\<close>

fun cache_access :: "event \<Rightarrow> bool" where
  "cache_access (CacheCheck a i) = True"
| "cache_access (CacheUpdate a i) = True"
| "cache_access _ = False"

text \<open>
  A monitor that reads a trace from left to right. It keeps whether the registry lock
  is held, the value last written to the active-client counter, and whether, since
  the lock was last taken, a write took the counter from a nonzero value to zero.
  \<open>guarded\<close> stays true as long as every \<open>RayShutdown\<close> so far came while the lock was
  held, the counter was zero, and it had just reached zero.
\<close>

record monitor =
  lock_held :: bool
  counter_value :: int
  reached_zero :: bool
  guarded :: bool

definition observe :: "monitor \<Rightarrow> event \<Rightarrow> monitor" where
  "observe m e =
     (case e of
        LockAcquire \<Rightarrow> m\<lparr>lock_held := True, reached_zero := False\<rparr>
      | LockRelease \<Rightarrow> m\<lparr>lock_held := False, reached_zero := False\<rparr>
      | CounterWrite k \<Rightarrow> m\<lparr>counter_value := k, reached_zero := (k = 0 \<and> counter_value m \<noteq> 0)\<rparr>
      | RayShutdown \<Rightarrow>
          m\<lparr>guarded := (guarded m \<and> lock_held m \<and> counter_value m = 0 \<and> reached_zero m)\<rparr>
      | _ \<Rightarrow> m)"

definition observe_trace :: "event list \<Rightarrow> monitor" where
  "observe_trace tr =
     foldl observe \<lparr>lock_held = False, counter_value = 0, reached_zero = False, guarded = True\<rparr> tr"

text \<open>
  The servicers that executions reach. The handlers of all connections run
  concurrently; the registry is read and written only under \<^verbatim>\<open>clients_lock\<close>, so
  the sections under the lock are atomic, and a step here is one of them, or one item
  of some connection's loop, by any connection, for any client id, in any order.
\<close>

inductive reachable :: "'b environment \<Rightarrow> 'b servicer \<Rightarrow> bool" for env :: "'b environment" where
  start: "reachable env (new_servicer b)"
| connect: "reachable env s \<Longrightarrow> DataServicer_init env client_id ctx start_time s = (acc, ctx1, s1)
     \<Longrightarrow> reachable env s1"
| cache: "reachable env s \<Longrightarrow> get_response_cache client_id s = (a, s1) \<Longrightarrow> reachable env s1"
| item: "reachable env s \<Longrightarrow> process_item env client_id a item l s = (out, l1, s1)
     \<Longrightarrow> reachable env s1"
| fault: "reachable env s \<Longrightarrow> handle_fault env a e ctx l s = (ctx1, l1, s1) \<Longrightarrow> reachable env s1"
| wait: "reachable env s \<Longrightarrow> reachable env (teardown_wait client_id l s)"
| teardown: "reachable env s \<Longrightarrow> teardown_locked env client_id start_time s = (f, s1)
     \<Longrightarrow> reachable env s1"

subsection \<open>A small environment for concrete runs\<close>

text \<open>
  A backend that counts its calls, raises on a get of \<open>''missing''\<close> and has no
  result yet for an asynchronous get; a thread budget of 4, so a threshold of 2;
  every fault unrecoverable.
\<close>

definition example_service :: "call \<Rightarrow> nat \<Rightarrow> (fault + bresult) \<times> nat" where
  "example_service c n =
     (case c of
        get_object p cid \<Rightarrow> (if p = ''missing'' then (Inl (Fault ''missing''), Suc n) else (Inr (BVal p), Suc n))
      | async_get_object p cid i \<Rightarrow> (Inr BNone, Suc n)
      | release cid rid \<Rightarrow> (Inr (BBool True), Suc n)
      | release_all cid \<Rightarrow> (Inr BNone, Suc n)
      | _ \<Rightarrow> (Inr (BVal ''ok''), Suc n))"

definition example_env :: "nat environment" where
  "example_env =
     \<lparr>CLIENT_SERVER_MAX_THREADS = 4,
      basic_service = example_service,
      propagate_error_in_context = (\<lambda>e ctx. (False, ctx\<lparr>code := Some FAILED_PRECONDITION\<rparr>)),
      invalidate_refused = (\<lambda>e c. False),
      python_version = ''3.8.10'', ray_version = ''1.9.0'', ray_commit = ''abc'',
      CURRENT_PROTOCOL_VERSION = ''2021-09-22''\<rparr>"

definition example_ctx :: "string \<Rightarrow> grpc_context" where
  "example_ctx r = \<lparr>invocation_metadata = [(''client_id'', ''c1''), (''reconnecting'', r)],
                     code = None, details = None\<rparr>"

definition example_servicer :: "int \<Rightarrow> nat servicer" where
  "example_servicer n =
     (new_servicer 0)\<lparr>num_clients := n, client_last_seen := [''c1'' \<mapsto> 1],
        reconnect_grace_periods := [''c1'' \<mapsto> 30], response_caches := [''c1'' \<mapsto> 0],
        next_cache := 1\<rparr>"

definition example_request :: "int \<Rightarrow> string \<Rightarrow> int \<Rightarrow> data_request" where
  "example_request i kind g =
     \<lparr>req_id = i, req_type = Some kind, reconnect_grace_period = g, asynchronous = False,
      release_ids = [], acknowledge_req_id = i, payload = ''x''\<rparr>"

text \<open>A servicer whose cache for \<open>''c1''\<close> holds the response to request 1.\<close>

definition example_cached :: "nat servicer" where
  "example_cached =
     (example_servicer 1)\<lparr>cache_heap := (\<lambda>_. empty_cache)
        (0 := \<lparr>entries = [1 \<mapsto> DataResponse (PutResponse (BVal ''ok'')) 1], broken = None\<rparr>)\<rparr>"

text \<open>
  Two more backends, one whose \<^verbatim>\<open>release_all\<close> raises and one whose \<^verbatim>\<open>Init\<close>
  raises, and the servicer right after the first connection of \<open>''c1''\<close> was admitted
  at time 7 and got its response cache.
\<close>

definition example_release_all_raises :: "nat environment" where
  "example_release_all_raises =
     example_env\<lparr>basic_service :=
       (\<lambda>c n. case c of release_all cid \<Rightarrow> (Inl (Fault ''release_all''), Suc n)
                        | _ \<Rightarrow> example_service c n)\<rparr>"

definition example_Init_raises :: "nat environment" where
  "example_Init_raises =
     example_env\<lparr>basic_service :=
       (\<lambda>c n. case c of Init p g \<Rightarrow> (Inl (Fault ''Init''), Suc n)
                        | _ \<Rightarrow> example_service c n)\<rparr>"

definition example_connected :: "nat servicer" where
  "example_connected =
     snd (get_response_cache ''c1''
       (snd (snd (DataServicer_init example_env ''c1'' (example_ctx ''False'') 7 (new_servicer 0)))))"

section \<open>Properties\<close>

subsection \<open>Helper facts\<close>

lemma threshold_example: "threshold example_env = 2"
  by (simp add: threshold_def py_int_def example_env_def)

lemma reconnecting_example: "get_reconnecting_from_context (example_ctx ''True'')"
  "\<not> get_reconnecting_from_context (example_ctx ''False'')"
  by (simp_all add: get_reconnecting_from_context_def metadata_dict_def example_ctx_def)

lemma example_facts:
  "num_clients (example_servicer n) = n"
  "client_last_seen (example_servicer n) = [''c1'' \<mapsto> 1]"
  "reconnect_grace_periods (example_servicer n) = [''c1'' \<mapsto> 30]"
  "response_caches (example_servicer n) = [''c1'' \<mapsto> 0]"
  by (simp_all add: example_servicer_def new_servicer_def)

lemma emit_fields [simp]:
  "num_clients (emit e s) = num_clients s"
  "client_last_seen (emit e s) = client_last_seen s"
  "reconnect_grace_periods (emit e s) = reconnect_grace_periods s"
  "response_caches (emit e s) = response_caches s"
  "cache_heap (emit e s) = cache_heap s"
  "next_cache (emit e s) = next_cache s"
  "backend (emit e s) = backend s"
  "trace (emit e s) = trace s @ [e]"
  by (simp_all add: emit_def)

lemma threshold_half:
  "0 \<le> CLIENT_SERVER_MAX_THREADS env \<Longrightarrow>
     real_of_int (threshold env) \<le> CLIENT_SERVER_MAX_THREADS env / 2 \<and>
     CLIENT_SERVER_MAX_THREADS env / 2 < real_of_int (threshold env) + 1"
  by (simp add: threshold_def py_int_def) linarith

text \<open>The monitor on a longer trace.\<close>

lemma observe_trace_append [simp]:
  "observe_trace (tr @ es) = foldl observe (observe_trace tr) es"
  by (simp add: observe_trace_def)

lemma monitor_unlocked [simp]:
  "\<not> lock_held m \<Longrightarrow> \<not> reached_zero m \<Longrightarrow> m\<lparr>lock_held := False, reached_zero := False\<rparr> = m"
  by simp

lemma observe_simps [simp]:
  "observe m LockAcquire = m\<lparr>lock_held := True, reached_zero := False\<rparr>"
  "observe m LockRelease = m\<lparr>lock_held := False, reached_zero := False\<rparr>"
  "observe m (CounterWrite k) = m\<lparr>counter_value := k, reached_zero := (k = 0 \<and> counter_value m \<noteq> 0)\<rparr>"
  "observe m RayShutdown =
     m\<lparr>guarded := (guarded m \<and> lock_held m \<and> counter_value m = 0 \<and> reached_zero m)\<rparr>"
  "observe m (BackendCall c) = m"
  "observe m (CacheCheck a i) = m"
  "observe m (CacheUpdate a i) = m"
  "observe m (CacheCleanup a i) = m"
  "observe m (CacheInvalidate a e) = m"
  "observe m (StoppedWait d) = m"
  by (simp_all add: observe_def)

text \<open>The dispatch chain, one equation for each request kind.\<close>

lemma dispatch_init:
  "req_type req = Some ''init'' \<Longrightarrow>
   dispatch env client_id a req l s =
     (case call_backend env (Init (payload req) (reconnect_grace_period req)) s of
           (Inl e, s1) \<Rightarrow> (Raise e, l, s1)
         | (Inr resp_init, s1) \<Rightarrow>
             finish a req (InitResponse resp_init)
               (if reconnect_grace_period req = 0 then l\<lparr>reconnect_enabled := False\<rparr> else l)
               (emit LockRelease ((emit LockAcquire s1)\<lparr>reconnect_grace_periods :=
                     (reconnect_grace_periods s1)(client_id \<mapsto> reconnect_grace_period req)\<rparr>)))"
  by (simp add: dispatch_def Let_def split: prod.split sum.split)

lemma dispatch_get:
  "req_type req = Some ''get'' \<Longrightarrow>
   dispatch env client_id a req l s =
        (if asynchronous req then
           (case call_backend env (async_get_object (payload req) client_id (req_id req)) s of
              (Inl e, s1) \<Rightarrow> (Raise e, l, s1)
            | (Inr get_resp, s1) \<Rightarrow>
                if get_resp = BNone then (Continue, l, s1)
                else finish a req (GetResponse get_resp) l s1)
         else
           (case call_backend env (get_object (payload req) client_id) s of
              (Inl e, s1) \<Rightarrow> (Raise e, l, s1)
            | (Inr get_resp, s1) \<Rightarrow> finish a req (GetResponse get_resp) l s1))"
  by (simp add: dispatch_def)

lemma dispatch_put:
  "req_type req = Some ''put'' \<Longrightarrow>
   dispatch env client_id a req l s =
        (case call_backend env (put_object (payload req) client_id) s of
           (Inl e, s1) \<Rightarrow> (Raise e, l, s1)
         | (Inr put_resp, s1) \<Rightarrow> finish a req (PutResponse put_resp) l s1)"
  by (simp add: dispatch_def)

lemma dispatch_release:
  "req_type req = Some ''release'' \<Longrightarrow>
   dispatch env client_id a req l s =
        (case release_each env client_id (release_ids req) [] s of
           (Inl e, s1) \<Rightarrow> (Raise e, l, s1)
         | (Inr released, s1) \<Rightarrow> finish a req (ReleaseResponse released) l s1)"
  by (simp add: dispatch_def)

lemma dispatch_connection_info:
  "req_type req = Some ''connection_info'' \<Longrightarrow>
   dispatch env client_id a req l s =
        (let (info, s1) = build_connection_response env s
         in finish a req (ConnectionInfoResponse info) l s1)"
  by (simp add: dispatch_def)

lemma dispatch_prep_runtime_env:
  "req_type req = Some ''prep_runtime_env'' \<Longrightarrow>
   dispatch env client_id a req l s =
        (case call_backend env (PrepRuntimeEnv (payload req)) (emit LockAcquire s) of
           (Inl e, s1) \<Rightarrow> (Raise e, l, emit LockRelease s1)
         | (Inr resp_prep, s1) \<Rightarrow>
             finish a req (PrepRuntimeEnvResponse resp_prep) l (emit LockRelease s1))"
  by (simp add: dispatch_def)

lemma dispatch_connection_cleanup:
  "req_type req = Some ''connection_cleanup'' \<Longrightarrow>
   dispatch env client_id a req l s =
     finish a req ConnectionCleanupResponse (l\<lparr>cleanup_requested := True\<rparr>) s"
  by (simp add: dispatch_def)

lemma dispatch_acknowledge:
  "req_type req = Some ''acknowledge'' \<Longrightarrow>
   dispatch env client_id a req l s =
        (Continue, l,
         s\<lparr>cache_heap := (cache_heap s)(a := cleanup (cache_heap s a) (acknowledge_req_id req)),
           trace := trace s @ [CacheCleanup a (acknowledge_req_id req)]\<rparr>)"
  by (simp add: dispatch_def)

lemma dispatch_unrecognized:
  "req_type req \<notin> {Some ''init'', Some ''get'', Some ''put'', Some ''release'',
       Some ''connection_info'', Some ''prep_runtime_env'', Some ''connection_cleanup'',
       Some ''acknowledge''} \<Longrightarrow>
   dispatch env client_id a req l s = (Raise (Unreachable (req_type req)), l, s)"
  by (simp add: dispatch_def)

text \<open>What a step of the loop leaves as it is.\<close>

lemma call_backendE:
  assumes "call_backend env c s = (r, s1)"
  obtains b where "basic_service env c (backend s) = (r, b)"
    and "s1 = s\<lparr>backend := b, trace := trace s @ [BackendCall c]\<rparr>"
  using assms by (auto simp: call_backend_def split: prod.splits)

lemma release_each_frame:
  "release_each env client_id ids released s = (r, s1) \<Longrightarrow>
     num_clients s1 = num_clients s \<and> client_last_seen s1 = client_last_seen s
     \<and> reconnect_grace_periods s1 = reconnect_grace_periods s
     \<and> response_caches s1 = response_caches s \<and> cache_heap s1 = cache_heap s
     \<and> next_cache s1 = next_cache s
     \<and> observe_trace (trace s1) = observe_trace (trace s)
     \<and> filter cache_access (trace s1) = filter cache_access (trace s)"
proof (induction ids arbitrary: released s)
  case Nil
  then show ?case by simp
next
  case (Cons rel_id ids)
  obtain r0 s0 where cb: "call_backend env (release client_id rel_id) s = (r0, s0)"
    by (cases "call_backend env (release client_id rel_id) s")
  from cb obtain b where s0: "s0 = s\<lparr>backend := b, trace := trace s @ [BackendCall (release client_id rel_id)]\<rparr>"
    by (rule call_backendE)
  show ?case
  proof (cases r0)
    case (Inl e)
    with Cons.prems cb s0 show ?thesis by auto
  next
    case (Inr rel)
    with Cons.prems cb have "release_each env client_id ids (released @ [rel]) s0 = (r, s1)"
      by simp
    from Cons.IH [OF this] s0 show ?thesis by simp
  qed
qed

lemma finish_frame:
  "finish a req body l s = (out, l1, s1) \<Longrightarrow>
     out = Yield (DataResponse body (req_id req)) \<and> l1 = l
     \<and> num_clients s1 = num_clients s \<and> client_last_seen s1 = client_last_seen s
     \<and> reconnect_grace_periods s1 = reconnect_grace_periods s
     \<and> response_caches s1 = response_caches s
     \<and> next_cache s1 = next_cache s \<and> backend s1 = backend s
     \<and> observe_trace (trace s1) = observe_trace (trace s)
     \<and> (\<not> reconnect_enabled l \<longrightarrow> s1 = s)
     \<and> (\<not> should_cache req \<longrightarrow> s1 = s)"
  by (auto simp: finish_def Let_def)

lemma req_type_cases:
  obtains (init) "req_type req = Some ''init''"
  | (get) "req_type req = Some ''get''"
  | (put) "req_type req = Some ''put''"
  | (release) "req_type req = Some ''release''"
  | (connection_info) "req_type req = Some ''connection_info''"
  | (prep_runtime_env) "req_type req = Some ''prep_runtime_env''"
  | (connection_cleanup) "req_type req = Some ''connection_cleanup''"
  | (acknowledge) "req_type req = Some ''acknowledge''"
  | (unrecognized) "req_type req \<notin> {Some ''init'', Some ''get'', Some ''put'', Some ''release'',
       Some ''connection_info'', Some ''prep_runtime_env'', Some ''connection_cleanup'',
       Some ''acknowledge''}"
  by blast

lemma dispatch_frame:
  assumes "dispatch env client_id a req l s = (out, l1, s1)"
  shows "num_clients s1 = num_clients s \<and> client_last_seen s1 = client_last_seen s
     \<and> response_caches s1 = response_caches s \<and> next_cache s1 = next_cache s
     \<and> (reconnect_enabled l1 \<longrightarrow> reconnect_enabled l)
     \<and> cleanup_requested l1 = (cleanup_requested l \<or> req_type req = Some ''connection_cleanup'')
     \<and> (\<not> lock_held (observe_trace (trace s)) \<and> \<not> reached_zero (observe_trace (trace s)) \<longrightarrow>
          observe_trace (trace s1) = observe_trace (trace s))
     \<and> (\<not> reconnect_enabled l \<longrightarrow>
          filter cache_access (trace s1) = filter cache_access (trace s))"
proof (cases req rule: req_type_cases)
  case init
  show ?thesis
    using assms init unfolding dispatch_init [OF init]
    by (auto split: prod.splits sum.splits if_splits elim!: call_backendE dest!: finish_frame)
next
  case get
  show ?thesis
    using assms get unfolding dispatch_get [OF get]
    by (auto split: prod.splits sum.splits if_splits elim!: call_backendE dest!: finish_frame)
next
  case put
  show ?thesis
    using assms put unfolding dispatch_put [OF put]
    by (auto split: prod.splits sum.splits if_splits elim!: call_backendE dest!: finish_frame)
next
  case release
  show ?thesis
    using assms release unfolding dispatch_release [OF release]
    by (auto split: prod.splits sum.splits if_splits dest!: release_each_frame finish_frame)
next
  case connection_info
  show ?thesis
    using assms connection_info unfolding dispatch_connection_info [OF connection_info]
    by (auto simp: build_connection_response_def Let_def split: prod.splits dest!: finish_frame)
next
  case prep_runtime_env
  show ?thesis
    using assms prep_runtime_env unfolding dispatch_prep_runtime_env [OF prep_runtime_env]
    by (auto split: prod.splits sum.splits if_splits elim!: call_backendE dest!: finish_frame)
next
  case connection_cleanup
  show ?thesis
    using assms connection_cleanup unfolding dispatch_connection_cleanup [OF connection_cleanup]
    by (auto dest!: finish_frame)
next
  case acknowledge
  show ?thesis
    using assms acknowledge unfolding dispatch_acknowledge [OF acknowledge]
    by auto
next
  case unrecognized
  show ?thesis
    using assms unrecognized unfolding dispatch_unrecognized [OF unrecognized]
    by auto
qed

lemma process_item_frame:
  assumes "process_item env client_id a item l s = (out, l1, s1)"
  shows "num_clients s1 = num_clients s \<and> client_last_seen s1 = client_last_seen s
     \<and> response_caches s1 = response_caches s \<and> next_cache s1 = next_cache s
     \<and> (reconnect_enabled l1 \<longrightarrow> reconnect_enabled l)
     \<and> cleanup_requested l1 =
          (cleanup_requested l \<or> (\<exists>req. item = Req req \<and> req_type req = Some ''connection_cleanup''))
     \<and> (\<not> lock_held (observe_trace (trace s)) \<and> \<not> reached_zero (observe_trace (trace s)) \<longrightarrow>
          observe_trace (trace s1) = observe_trace (trace s))
     \<and> (\<not> reconnect_enabled l \<longrightarrow>
          filter cache_access (trace s1) = filter cache_access (trace s))"
proof (cases item)
  case (Resp r)
  with assms show ?thesis by (simp add: process_item_def)
next
  case (Req req)
  show ?thesis
  proof (cases "should_cache req \<and> reconnect_enabled l")
    case False
    with assms Req have "dispatch env client_id a req l s = (out, l1, s1)"
      by (simp add: process_item_def)
    from dispatch_frame [OF this] Req show ?thesis by simp
  next
    case True
    note sc = this
    show ?thesis
    proof (cases "check_cache (cache_heap s a) (req_id req)")
      case Absent
      with assms Req sc
      have "dispatch env client_id a req l (emit (CacheCheck a (req_id req)) s) = (out, l1, s1)"
        by (simp add: process_item_def)
      from dispatch_frame [OF this] Req sc show ?thesis by (simp add: should_cache_def)
    next
      case (Hit r)
      with assms Req sc show ?thesis by (auto simp: process_item_def should_cache_def)
    next
      case (Failure e)
      with assms Req sc show ?thesis by (auto simp: process_item_def should_cache_def)
    qed
  qed
qed


lemma dispatch_loop_cases:
  assumes "dispatch_loop env client_id a (item # items) l s = (out, f, l1, s1)"
  obtains (raise) e l0 s0 where "process_item env client_id a item l s = (Raise e, l0, s0)"
      "out = []" "f = Some e" "l1 = l0" "s1 = s0"
  | (continue) l0 s0 where "process_item env client_id a item l s = (Continue, l0, s0)"
      "dispatch_loop env client_id a items l0 s0 = (out, f, l1, s1)"
  | (yield) r l0 s0 out' where "process_item env client_id a item l s = (Yield r, l0, s0)"
      "dispatch_loop env client_id a items l0 s0 = (out', f, l1, s1)" "out = r # out'"
proof -
  obtain o1 l0 s0 where step: "process_item env client_id a item l s = (o1, l0, s0)"
    by (cases "process_item env client_id a item l s")
  show thesis
  proof (cases o1)
    case (Raise e)
    with assms step show ?thesis by (intro raise [of e l0 s0]) simp_all
  next
    case Continue
    with assms step show ?thesis by (intro continue [of l0 s0]) simp_all
  next
    case (Yield r)
    obtain out' f' l' s' where rest: "dispatch_loop env client_id a items l0 s0 = (out', f', l', s')"
      by (cases "dispatch_loop env client_id a items l0 s0")
    with assms step Yield show ?thesis by (intro yield [of r l0 s0 out']) simp_all
  qed
qed

lemma dispatch_loop_registry:
  "dispatch_loop env client_id a items l s = (out, f, l1, s1) \<Longrightarrow>
     num_clients s1 = num_clients s \<and> client_last_seen s1 = client_last_seen s
     \<and> response_caches s1 = response_caches s \<and> next_cache s1 = next_cache s"
proof (induction items arbitrary: l s out)
  case Nil
  then show ?case by simp
next
  case (Cons item items)
  from Cons.prems show ?case
  proof (cases rule: dispatch_loop_cases)
    case (raise e l0 s0)
    from process_item_frame [OF raise(1)] raise(5) show ?thesis by simp
  next
    case (continue l0 s0)
    from process_item_frame [OF continue(1)] Cons.IH [OF continue(2)] show ?thesis by simp
  next
    case (yield r l0 s0 out')
    from process_item_frame [OF yield(1)] Cons.IH [OF yield(2)] show ?thesis by simp
  qed
qed

lemma dispatch_loop_observe:
  "dispatch_loop env client_id a items l s = (out, f, l1, s1) \<Longrightarrow>
   \<not> lock_held (observe_trace (trace s)) \<Longrightarrow> \<not> reached_zero (observe_trace (trace s)) \<Longrightarrow>
     observe_trace (trace s1) = observe_trace (trace s)"
proof (induction items arbitrary: l s out)
  case Nil
  then show ?case by simp
next
  case (Cons item items)
  from Cons.prems(1) show ?case
  proof (cases rule: dispatch_loop_cases)
    case (raise e l0 s0)
    from process_item_frame [OF raise(1)] raise(5) Cons.prems(2,3) show ?thesis by simp
  next
    case (continue l0 s0)
    from process_item_frame [OF continue(1)] Cons.prems(2,3)
    have eq: "observe_trace (trace s0) = observe_trace (trace s)" by simp
    with Cons.IH [OF continue(2)] Cons.prems(2,3) show ?thesis by simp
  next
    case (yield r l0 s0 out')
    from process_item_frame [OF yield(1)] Cons.prems(2,3)
    have eq: "observe_trace (trace s0) = observe_trace (trace s)" by simp
    with Cons.IH [OF yield(2)] Cons.prems(2,3) show ?thesis by simp
  qed
qed

lemma dispatch_loop_disabled:
  "dispatch_loop env client_id a items l s = (out, f, l1, s1) \<Longrightarrow> \<not> reconnect_enabled l \<Longrightarrow>
     \<not> reconnect_enabled l1 \<and> filter cache_access (trace s1) = filter cache_access (trace s)"
proof (induction items arbitrary: l s out)
  case Nil
  then show ?case by simp
next
  case (Cons item items)
  from Cons.prems(1) show ?case
  proof (cases rule: dispatch_loop_cases)
    case (raise e l0 s0)
    from process_item_frame [OF raise(1)] raise(4,5) Cons.prems(2) show ?thesis by simp
  next
    case (continue l0 s0)
    from process_item_frame [OF continue(1)] Cons.prems(2)
    have "\<not> reconnect_enabled l0" "filter cache_access (trace s0) = filter cache_access (trace s)"
      by simp_all
    with Cons.IH [OF continue(2)] show ?thesis by simp
  next
    case (yield r l0 s0 out')
    from process_item_frame [OF yield(1)] Cons.prems(2)
    have "\<not> reconnect_enabled l0" "filter cache_access (trace s0) = filter cache_access (trace s)"
      by simp_all
    with Cons.IH [OF yield(2)] show ?thesis by simp
  qed
qed

lemma dispatch_loop_cleanup_requested:
  "dispatch_loop env client_id a items l s = (out, None, l1, s1) \<Longrightarrow>
     cleanup_requested l1 =
       (cleanup_requested l \<or>
        (\<exists>req. Req req \<in> set items \<and> req_type req = Some ''connection_cleanup''))"
proof (induction items arbitrary: l s out)
  case Nil
  then show ?case by simp
next
  case (Cons item items)
  from Cons.prems(1) show ?case
  proof (cases rule: dispatch_loop_cases)
    case (raise e l0 s0)
    then show ?thesis by simp
  next
    case (continue l0 s0)
    from process_item_frame [OF continue(1)]
    have "cleanup_requested l0 =
          (cleanup_requested l \<or> (\<exists>req. item = Req req \<and> req_type req = Some ''connection_cleanup''))"
      by simp
    with Cons.IH [OF continue(2)] show ?thesis by (simp del: ex_simps) blast
  next
    case (yield r l0 s0 out')
    from process_item_frame [OF yield(1)]
    have "cleanup_requested l0 =
          (cleanup_requested l \<or> (\<exists>req. item = Req req \<and> req_type req = Some ''connection_cleanup''))"
      by simp
    with Cons.IH [OF yield(2)] show ?thesis by (simp del: ex_simps) blast
  qed
qed

lemma reachable_invariant:
  "reachable env s \<Longrightarrow>
     observe_trace (trace s) =
       \<lparr>lock_held = False, counter_value = num_clients s, reached_zero = False, guarded = True\<rparr>"
proof (induction rule: reachable.induct)
  case (start b)
  show ?case by (simp add: new_servicer_def observe_trace_def)
next
  case (connect s client_id ctx start_time acc ctx1 s1)
  then show ?case
    by (auto simp: DataServicer_init_def Let_def split: if_splits)
next
  case (cache s client_id a s1)
  then show ?case
    by (auto simp: get_response_cache_def split: option.splits)
next
  case (item s client_id a item l out l1 s1)
  from process_item_frame [OF item.hyps(2)] item.IH show ?case by simp
next
  case (fault s a e ctx l ctx1 l1 s1)
  then show ?case
    by (auto simp: handle_fault_def invalidate_def Let_def split: prod.splits if_splits)
next
  case (wait s client_id l)
  then show ?case by (simp add: teardown_wait_def Let_def)
next
  case (teardown s client_id start_time f s1)
  then show ?case
    by (auto simp: teardown_locked_def Let_def split: option.splits if_splits prod.splits sum.splits
             elim!: call_backendE)
qed

lemma example_servicer_fields:
  "backend (example_servicer n) = 0"
  "trace (example_servicer n) = []"
  "next_cache (example_servicer n) = 1"
  "cache_heap (example_servicer n) = (\<lambda>_. empty_cache)"
  by (simp_all add: example_servicer_def new_servicer_def)

lemma example_service_release_all:
  "basic_service example_env (release_all cid) n = (Inr BNone, Suc n)"
  by (simp add: example_env_def example_service_def)

text \<open>A run of the handler is an execution.\<close>

lemma Datapath_reachable_loop:
  "dispatch_loop env client_id a items l s = (out, f, l1, s1) \<Longrightarrow> reachable env s
     \<Longrightarrow> reachable env s1"
proof (induction items arbitrary: l s out)
  case Nil
  then show ?case by simp
next
  case (Cons item items)
  from Cons.prems(1) show ?case
  proof (cases rule: dispatch_loop_cases)
    case (raise e l0 s0)
    with reachable.item [OF Cons.prems(2) raise(1)] show ?thesis by simp
  next
    case (continue l0 s0)
    from Cons.IH [OF continue(2) reachable.item [OF Cons.prems(2) continue(1)]] show ?thesis .
  next
    case (yield r l0 s0 out')
    from Cons.IH [OF yield(2) reachable.item [OF Cons.prems(2) yield(1)]] show ?thesis .
  qed
qed

lemma Datapath_reachable:
  assumes "reachable env s" and "\<And>s'. reachable env s' \<Longrightarrow> reachable env (others s')"
  shows "reachable env (snd (snd (snd (Datapath env ctx start_time items others s))))"
proof (cases "metadata_dict ctx ''client_id''")
  case None
  with assms(1) show ?thesis by (simp add: Datapath_def)
next
  case (Some client_id)
  obtain acc ctx1 s1 where i: "DataServicer_init env client_id ctx start_time s = (acc, ctx1, s1)"
    by (cases "DataServicer_init env client_id ctx start_time s")
  obtain a s2 where c: "get_response_cache client_id s1 = (a, s2)"
    by (cases "get_response_cache client_id s1")
  have r2: "reachable env s2"
    using reachable.cache [OF reachable.connect [OF assms(1) i] c] .
  show ?thesis
  proof (cases acc)
    case False
    with Some i c r2 show ?thesis by (simp add: Datapath_def)
  next
    case True
    obtain out f l s3 where lp:
      "dispatch_loop env client_id a items \<lparr>cleanup_requested = False, reconnect_enabled = True\<rparr> s2
         = (out, f, l, s3)"
      by (cases "dispatch_loop env client_id a items
                   \<lparr>cleanup_requested = False, reconnect_enabled = True\<rparr> s2")
    have r3: "reachable env s3" using Datapath_reachable_loop [OF lp r2] .
    obtain ctx2 l1 s4 where h:
      "(case f of None \<Rightarrow> (ctx1, l, s3) | Some e \<Rightarrow> handle_fault env a e ctx1 l s3) = (ctx2, l1, s4)"
      by (cases "case f of None \<Rightarrow> (ctx1, l, s3) | Some e \<Rightarrow> handle_fault env a e ctx1 l s3")
    have r4: "reachable env s4"
    proof (cases f)
      case None
      with h r3 show ?thesis by simp
    next
      case (Some e)
      with h have "handle_fault env a e ctx1 l s3 = (ctx2, l1, s4)" by simp
      from reachable.fault [OF r3 this] show ?thesis .
    qed
    obtain f1 s6 where td:
      "teardown_locked env client_id start_time (others (teardown_wait client_id l1 s4)) = (f1, s6)"
      by (cases "teardown_locked env client_id start_time (others (teardown_wait client_id l1 s4))")
    have "reachable env (others (teardown_wait client_id l1 s4))"
      using assms(2) [OF reachable.wait [OF r4]] .
    from reachable.teardown [OF this td] have "reachable env s6" .
    with Some i c True lp h td show ?thesis by (simp add: Datapath_def)
  qed
qed

lemma example_cached_fields:
  "num_clients example_cached = 1"
  "client_last_seen example_cached = [''c1'' \<mapsto> 1]"
  "reconnect_grace_periods example_cached = [''c1'' \<mapsto> 30]"
  "response_caches example_cached = [''c1'' \<mapsto> 0]"
  "backend example_cached = 0"
  "trace example_cached = []"
  "cache_heap example_cached 0 =
     \<lparr>entries = [1 \<mapsto> DataResponse (PutResponse (BVal ''ok'')) 1], broken = None\<rparr>"
  by (simp_all add: example_cached_def example_servicer_def new_servicer_def)

lemma example_request_fields [simp]:
  "req_id (example_request i kind g) = i"
  "req_type (example_request i kind g) = Some kind"
  "reconnect_grace_period (example_request i kind g) = g"
  "asynchronous (example_request i kind g) = False"
  "release_ids (example_request i kind g) = []"
  "acknowledge_req_id (example_request i kind g) = i"
  "payload (example_request i kind g) = ''x''"
  by (simp_all add: example_request_def)

text \<open>The loop body when the cache has nothing for the request; an init that returns; what a cacheable request leaves in the cache.\<close>

lemma process_item_uncached:
  "reconnect_enabled l \<longrightarrow> check_cache (cache_heap s a) (req_id req) = Absent \<Longrightarrow>
   process_item env client_id a (Req req) l s =
     dispatch env client_id a req l
       (if should_cache req \<and> reconnect_enabled l then emit (CacheCheck a (req_id req)) s else s)"
  by (simp add: process_item_def)

lemma dispatch_init_returns:
  assumes "req_type req = Some ''init''"
      and "basic_service env (Init (payload req) (reconnect_grace_period req)) (backend s) = (Inr v, b)"
  shows "dispatch env client_id a req l s =
           finish a req (InitResponse v)
             (if reconnect_grace_period req = 0 then l\<lparr>reconnect_enabled := False\<rparr> else l)
             (emit LockRelease
               ((emit LockAcquire
                  (s\<lparr>backend := b,
                     trace := trace s @ [BackendCall (Init (payload req) (reconnect_grace_period req))]\<rparr>))
                \<lparr>reconnect_grace_periods :=
                   (reconnect_grace_periods s)(client_id \<mapsto> reconnect_grace_period req)\<rparr>))"
  using assms by (simp add: dispatch_init call_backend_def)




text \<open>The handler of an accepted connection, step by step.\<close>

lemma Datapath_accepted:
  assumes "metadata_dict ctx ''client_id'' = Some client_id"
      and "DataServicer_init env client_id ctx start_time s = (True, ctx1, s1)"
      and "get_response_cache client_id s1 = (a, s2)"
      and "dispatch_loop env client_id a items
             \<lparr>cleanup_requested = False, reconnect_enabled = True\<rparr> s2 = (out, f, l, s3)"
      and "(case f of None \<Rightarrow> (ctx1, l, s3) | Some e \<Rightarrow> handle_fault env a e ctx1 l s3)
             = (ctx2, l1, s4)"
  shows "Datapath env ctx start_time items others s =
           (out, ctx2, teardown_locked env client_id start_time (others (teardown_wait client_id l1 s4)))"
  using assms by (simp add: Datapath_def split: prod.splits)

text \<open>Equations for evaluating concrete runs.\<close>

lemmas example_run =
  process_item_def dispatch_def finish_def call_backend_def should_cache_def check_cache_def
  update_cache_def empty_cache_def emit_def example_env_def example_service_def
  example_servicer_def new_servicer_def Let_def

lemmas example_teardown =
  Datapath_def DataServicer_init_def get_response_cache_def handle_fault_def invalidate_def
  teardown_wait_def teardown_locked_def metadata_dict_def get_reconnecting_from_context_def
  example_ctx_def threshold_def py_int_def

lemma example_connected_eq:
  "example_connected =
     (new_servicer 0)\<lparr>num_clients := 1, client_last_seen := [''c1'' \<mapsto> 7],
        response_caches := [''c1'' \<mapsto> 0], next_cache := 1,
        trace := [LockAcquire, CounterWrite 1, LockRelease]\<rparr>"
  by (simp add: example_connected_def example_teardown example_env_def new_servicer_def emit_def
        Let_def empty_cache_def fun_eq_iff)

subsection \<open>Properties of admission\<close>

text \<open>
  Claim C9. In \<^verbatim>\<open>_init\<close> the threshold check comes before the reconnecting check and
  rejects whenever the active-client count is greater than or equal to the threshold:
  whatever the reconnecting flag and whether or not the client has a session entry,
  the result is \<open>False\<close> with the status \<open>RESOURCE_EXHAUSTED\<close>; the not-found branch
  and the refresh of last-seen are not reached (the status is not \<open>NOT_FOUND\<close>, the
  registry and the counter are as before; only the lock was taken and released).
  In particular so for a reconnecting client with a session when the count equals
  the threshold.
\<close>

theorem init_threshold_first:
  assumes "threshold env \<le> num_clients s"
  shows "DataServicer_init env client_id ctx start_time s =
           (False, ctx\<lparr>code := Some RESOURCE_EXHAUSTED\<rparr>, emit LockRelease (emit LockAcquire s))
         \<and> code (fst (snd (DataServicer_init env client_id ctx start_time s))) \<noteq> Some NOT_FOUND
         \<and> client_last_seen (snd (snd (DataServicer_init env client_id ctx start_time s)))
             = client_last_seen s
         \<and> num_clients (snd (snd (DataServicer_init env client_id ctx start_time s)))
             = num_clients s"
  using assms by (simp add: DataServicer_init_def Let_def)

theorem init_threshold_first_witness:
  "threshold example_env \<le> num_clients (example_servicer 2)
   \<and> num_clients (example_servicer 2) = threshold example_env
   \<and> get_reconnecting_from_context (example_ctx ''True'')
   \<and> client_last_seen (example_servicer 2) ''c1'' = Some 1
   \<and> DataServicer_init example_env ''c1'' (example_ctx ''True'') 7 (example_servicer 2) =
       (False, (example_ctx ''True'')\<lparr>code := Some RESOURCE_EXHAUSTED\<rparr>,
        emit LockRelease (emit LockAcquire (example_servicer 2)))"
  using init_threshold_first [of example_env "example_servicer 2" "''c1''" "example_ctx ''True''" 7]
  by (simp add: threshold_example reconnecting_example example_facts)

text \<open>
  Claim C3. For a connection that is not reconnecting, \<^verbatim>\<open>_init\<close> admits the client
  exactly when the active-client count is below the threshold; when the count exceeds
  the threshold the result is \<open>False\<close>, the status is \<open>RESOURCE_EXHAUSTED\<close>, no session
  entry is created and the counter is not incremented. The threshold is half of the
  thread budget, truncated to an integer.
\<close>

theorem init_new_client_admission:
  assumes "\<not> get_reconnecting_from_context ctx"
      and "DataServicer_init env client_id ctx start_time s = (accepted, ctx', s')"
  shows "(accepted \<longleftrightarrow> num_clients s < threshold env)
         \<and> (threshold env < num_clients s \<longrightarrow>
              \<not> accepted \<and> code ctx' = Some RESOURCE_EXHAUSTED
              \<and> client_last_seen s' = client_last_seen s
              \<and> num_clients s' = num_clients s
              \<and> reconnect_grace_periods s' = reconnect_grace_periods s
              \<and> response_caches s' = response_caches s)
         \<and> (0 \<le> CLIENT_SERVER_MAX_THREADS env \<longrightarrow>
              real_of_int (threshold env) \<le> CLIENT_SERVER_MAX_THREADS env / 2
              \<and> CLIENT_SERVER_MAX_THREADS env / 2 < real_of_int (threshold env) + 1)"
proof -
  have adm: "accepted \<longleftrightarrow> num_clients s < threshold env"
    using assms by (auto simp: DataServicer_init_def Let_def split: if_splits)
  have rej: "threshold env < num_clients s \<longrightarrow>
              \<not> accepted \<and> code ctx' = Some RESOURCE_EXHAUSTED
              \<and> client_last_seen s' = client_last_seen s
              \<and> num_clients s' = num_clients s
              \<and> reconnect_grace_periods s' = reconnect_grace_periods s
              \<and> response_caches s' = response_caches s"
    using assms(2) by (auto simp: DataServicer_init_def Let_def split: if_splits)
  have half: "0 \<le> CLIENT_SERVER_MAX_THREADS env \<longrightarrow>
              real_of_int (threshold env) \<le> CLIENT_SERVER_MAX_THREADS env / 2
              \<and> CLIENT_SERVER_MAX_THREADS env / 2 < real_of_int (threshold env) + 1"
    using threshold_half by blast
  from adm rej half show ?thesis by blast
qed

theorem init_new_client_admission_witness:
  "\<not> get_reconnecting_from_context (example_ctx ''False'')
   \<and> threshold example_env < num_clients ((new_servicer (0::nat))\<lparr>num_clients := 3\<rparr>)
   \<and> fst (DataServicer_init example_env ''c2'' (example_ctx ''False'') 7
            ((new_servicer (0::nat))\<lparr>num_clients := 3\<rparr>)) = False
   \<and> code (fst (snd (DataServicer_init example_env ''c2'' (example_ctx ''False'') 7
            ((new_servicer (0::nat))\<lparr>num_clients := 3\<rparr>)))) = Some RESOURCE_EXHAUSTED
   \<and> client_last_seen (snd (snd (DataServicer_init example_env ''c2'' (example_ctx ''False'') 7
            ((new_servicer (0::nat))\<lparr>num_clients := 3\<rparr>)))) ''c2'' = None
   \<and> fst (DataServicer_init example_env ''c2'' (example_ctx ''False'') 7
            ((new_servicer (0::nat))\<lparr>num_clients := 1\<rparr>)) = True"
  using init_new_client_admission [of "example_ctx ''False''" example_env "''c2''" 7
          "(new_servicer (0::nat))\<lparr>num_clients := 3\<rparr>"
          "fst (DataServicer_init example_env ''c2'' (example_ctx ''False'') 7
                 ((new_servicer (0::nat))\<lparr>num_clients := 3\<rparr>))"
          "fst (snd (DataServicer_init example_env ''c2'' (example_ctx ''False'') 7
                 ((new_servicer (0::nat))\<lparr>num_clients := 3\<rparr>)))"
          "snd (snd (DataServicer_init example_env ''c2'' (example_ctx ''False'') 7
                 ((new_servicer (0::nat))\<lparr>num_clients := 3\<rparr>)))"]
        init_new_client_admission [of "example_ctx ''False''" example_env "''c2''" 7
          "(new_servicer (0::nat))\<lparr>num_clients := 1\<rparr>"
          "fst (DataServicer_init example_env ''c2'' (example_ctx ''False'') 7
                 ((new_servicer (0::nat))\<lparr>num_clients := 1\<rparr>))"
          "fst (snd (DataServicer_init example_env ''c2'' (example_ctx ''False'') 7
                 ((new_servicer (0::nat))\<lparr>num_clients := 1\<rparr>)))"
          "snd (snd (DataServicer_init example_env ''c2'' (example_ctx ''False'') 7
                 ((new_servicer (0::nat))\<lparr>num_clients := 1\<rparr>)))"]
  by (simp add: threshold_example reconnecting_example new_servicer_def)

text \<open>
  Claim C4, as stated, fails when the active-client count has reached the threshold:
  a reconnecting client with a session entry is rejected with \<open>RESOURCE_EXHAUSTED\<close>
  and its last-seen time is not refreshed, and a reconnecting client without one
  gets \<open>RESOURCE_EXHAUSTED\<close>, not \<open>NOT_FOUND\<close>.
\<close>

theorem init_reconnecting_at_threshold_counterexample:
  "get_reconnecting_from_context (example_ctx ''True'')
   \<and> client_last_seen (example_servicer 2) ''c1'' = Some 1
   \<and> fst (DataServicer_init example_env ''c1'' (example_ctx ''True'') 7 (example_servicer 2)) = False
   \<and> code (fst (snd (DataServicer_init example_env ''c1'' (example_ctx ''True'') 7
                      (example_servicer 2)))) = Some RESOURCE_EXHAUSTED
   \<and> client_last_seen (snd (snd (DataServicer_init example_env ''c1'' (example_ctx ''True'') 7
                      (example_servicer 2)))) ''c1'' = Some 1
   \<and> client_last_seen (example_servicer 2) ''c9'' = None
   \<and> code (fst (snd (DataServicer_init example_env ''c9'' (example_ctx ''True'') 7
                      (example_servicer 2)))) = Some RESOURCE_EXHAUSTED"
  by (simp add: DataServicer_init_def Let_def threshold_example reconnecting_example example_facts)

text \<open>
  Claim C4, amended. For every connection whose reconnecting flag is true and that
  arrives while the active-client count is below the threshold: if no session entry
  exists for the client id, \<^verbatim>\<open>_init\<close> rejects it with the status \<open>NOT_FOUND\<close> and
  returns \<open>False\<close>, the servicer unchanged; if one exists, \<^verbatim>\<open>_init\<close> sets the client's
  last-seen time to the connection's start time, leaves the counter and the set of
  sessions as they are, and returns \<open>True\<close>.
\<close>

theorem init_reconnecting_below_threshold:
  assumes "get_reconnecting_from_context ctx"
      and "num_clients s < threshold env"
      and "DataServicer_init env client_id ctx start_time s = (accepted, ctx', s')"
  shows "(client_last_seen s client_id = None \<longrightarrow>
            \<not> accepted \<and> code ctx' = Some NOT_FOUND
            \<and> s' = emit LockRelease (emit LockAcquire s))
         \<and> (client_last_seen s client_id \<noteq> None \<longrightarrow>
            accepted \<and> ctx' = ctx
            \<and> client_last_seen s' = (client_last_seen s)(client_id \<mapsto> start_time)
            \<and> dom (client_last_seen s') = dom (client_last_seen s)
            \<and> num_clients s' = num_clients s
            \<and> response_caches s' = response_caches s
            \<and> reconnect_grace_periods s' = reconnect_grace_periods s)"
  using assms by (auto simp: DataServicer_init_def Let_def split: if_splits)

theorem init_reconnecting_below_threshold_witness:
  "get_reconnecting_from_context (example_ctx ''True'')
   \<and> num_clients (example_servicer 1) < threshold example_env
   \<and> client_last_seen (example_servicer 1) ''c1'' = Some 1
   \<and> fst (DataServicer_init example_env ''c1'' (example_ctx ''True'') 7 (example_servicer 1)) = True
   \<and> client_last_seen (snd (snd (DataServicer_init example_env ''c1'' (example_ctx ''True'') 7
        (example_servicer 1)))) ''c1'' = Some 7
   \<and> num_clients (snd (snd (DataServicer_init example_env ''c1'' (example_ctx ''True'') 7
        (example_servicer 1)))) = 1
   \<and> client_last_seen (example_servicer 1) ''c9'' = None
   \<and> fst (DataServicer_init example_env ''c9'' (example_ctx ''True'') 7 (example_servicer 1)) = False
   \<and> code (fst (snd (DataServicer_init example_env ''c9'' (example_ctx ''True'') 7
        (example_servicer 1)))) = Some NOT_FOUND"
  using init_reconnecting_below_threshold [of "example_ctx ''True''" "example_servicer 1" example_env
          "''c1''" 7
          "fst (DataServicer_init example_env ''c1'' (example_ctx ''True'') 7 (example_servicer 1))"
          "fst (snd (DataServicer_init example_env ''c1'' (example_ctx ''True'') 7 (example_servicer 1)))"
          "snd (snd (DataServicer_init example_env ''c1'' (example_ctx ''True'') 7 (example_servicer 1)))"]
        init_reconnecting_below_threshold [of "example_ctx ''True''" "example_servicer 1" example_env
          "''c9''" 7
          "fst (DataServicer_init example_env ''c9'' (example_ctx ''True'') 7 (example_servicer 1))"
          "fst (snd (DataServicer_init example_env ''c9'' (example_ctx ''True'') 7 (example_servicer 1)))"
          "snd (snd (DataServicer_init example_env ''c9'' (example_ctx ''True'') 7 (example_servicer 1)))"]
  by (simp add: threshold_example reconnecting_example example_facts)

subsection \<open>A connection without a client id\<close>

text \<open>
  Claim C10. When the connection's metadata has no \<open>client_id\<close> key, the handler
  returns at once: no response is yielded, the context and the servicer are unchanged
  (no session entry, no response cache, the same counter), and nothing of the
  teardown block runs (the trace is unchanged: no lock, no wait, no \<^verbatim>\<open>release_all\<close>).
\<close>

theorem Datapath_without_client_id:
  assumes "''client_id'' \<notin> fst ` set (invocation_metadata ctx)"
  shows "Datapath env ctx start_time items others s = ([], ctx, None, s)"
proof -
  have "map_of (rev (invocation_metadata ctx)) ''client_id'' = None"
    using assms by (simp add: map_of_eq_None_iff)
  then show ?thesis by (simp add: Datapath_def metadata_dict_def)
qed

theorem Datapath_without_client_id_witness:
  "''client_id'' \<notin> fst ` set (invocation_metadata
       \<lparr>invocation_metadata = [(''reconnecting'', ''False'')], code = None, details = None\<rparr>)
   \<and> Datapath example_env
       \<lparr>invocation_metadata = [(''reconnecting'', ''False'')], code = None, details = None\<rparr>
       7 [Req \<lparr>req_id = 1, req_type = Some ''put'', reconnect_grace_period = 0,
               asynchronous = False, release_ids = [], acknowledge_req_id = 0, payload = ''x''\<rparr>]
       id (example_servicer 1)
     = ([], \<lparr>invocation_metadata = [(''reconnecting'', ''False'')], code = None, details = None\<rparr>,
        None, example_servicer 1)"
  using Datapath_without_client_id [of
       "\<lparr>invocation_metadata = [(''reconnecting'', ''False'')], code = None, details = None\<rparr>"
       example_env 7 "[Req \<lparr>req_id = 1, req_type = Some ''put'', reconnect_grace_period = 0,
               asynchronous = False, release_ids = [], acknowledge_req_id = 0, payload = ''x''\<rparr>]"
       id "example_servicer 1"]
  by simp

subsection \<open>Teardown\<close>

text \<open>
  Claim C1, as stated, fails when \<^verbatim>\<open>release_all\<close> raises: the run of the handler for
  an accepted client that sent an init and a connection cleanup ends with that
  fault, and the client's last-seen, grace-period and response-cache entries are
  still there and the counter is still 1.
\<close>

theorem teardown_release_all_raises_counterexample:
  "fst (DataServicer_init example_release_all_raises ''c1'' (example_ctx ''False'') 7 (new_servicer 0))
   \<and> fst (snd (snd (Datapath example_release_all_raises (example_ctx ''False'') 7
         [Req (example_request 1 ''init'' 30), Req (example_request 2 ''connection_cleanup'' 0)] id
         (new_servicer 0)))) = Some (Fault ''release_all'')
   \<and> client_last_seen (snd (snd (snd (Datapath example_release_all_raises (example_ctx ''False'') 7
         [Req (example_request 1 ''init'' 30), Req (example_request 2 ''connection_cleanup'' 0)] id
         (new_servicer 0))))) ''c1'' = Some 7
   \<and> reconnect_grace_periods (snd (snd (snd (Datapath example_release_all_raises
         (example_ctx ''False'') 7
         [Req (example_request 1 ''init'' 30), Req (example_request 2 ''connection_cleanup'' 0)] id
         (new_servicer 0))))) ''c1'' = Some 30
   \<and> response_caches (snd (snd (snd (Datapath example_release_all_raises (example_ctx ''False'') 7
         [Req (example_request 1 ''init'' 30), Req (example_request 2 ''connection_cleanup'' 0)] id
         (new_servicer 0))))) ''c1'' = Some 0
   \<and> num_clients (snd (snd (snd (Datapath example_release_all_raises (example_ctx ''False'') 7
         [Req (example_request 1 ''init'' 30), Req (example_request 2 ''connection_cleanup'' 0)] id
         (new_servicer 0))))) = 1
   \<and> trace (snd (snd (snd (Datapath example_release_all_raises (example_ctx ''False'') 7
         [Req (example_request 1 ''init'' 30), Req (example_request 2 ''connection_cleanup'' 0)] id
         (new_servicer 0)))))
       = [LockAcquire, CounterWrite 1, LockRelease,
          CacheCheck 0 1, BackendCall (Init ''x'' 30), LockAcquire, LockRelease, CacheUpdate 0 1,
          LockAcquire, BackendCall (release_all ''c1''), LockRelease]"
  by (simp add: example_release_all_raises_def example_run example_teardown)

text \<open>
  Claim C1, amended. The handler of an accepted connection ends with the teardown block,
  \<open>teardown_wait\<close> and then \<open>teardown_locked\<close>, on the locals and the servicer with
  which the loop and the fault handler ended. If cleanup was requested or no grace
  period is recorded for the client id, there is no wait; otherwise the handler
  waits on the \<^verbatim>\<open>stopped\<close> event with the recorded grace period as timeout. Then,
  under the lock: if the client id is not in \<^verbatim>\<open>client_last_seen\<close>, nothing is done; if
  the recorded last-seen time is strictly greater than the connection's start time,
  nothing is done; otherwise \<^verbatim>\<open>release_all\<close> is called for the client and, when it
  returns, the client's last-seen, grace-period and response-cache entries are
  deleted and the counter is decremented. When the loop ended without a fault,
  cleanup was requested exactly when a \<open>connection_cleanup\<close> request was among the
  items; a fault that forces it is the subject of claim C7.
\<close>

theorem teardown_decision:
  "(cleanup_requested l \<or> reconnect_grace_periods s client_id = None \<longrightarrow>
      teardown_wait client_id l s = s)
   \<and> (\<not> cleanup_requested l \<and> reconnect_grace_periods s client_id = Some d \<longrightarrow>
      teardown_wait client_id l s = emit (StoppedWait d) s)
   \<and> (client_last_seen s client_id = None \<longrightarrow>
      teardown_locked env client_id start_time s = (None, emit LockRelease (emit LockAcquire s)))
   \<and> (client_last_seen s client_id = Some t \<and> start_time < t \<longrightarrow>
      teardown_locked env client_id start_time s = (None, emit LockRelease (emit LockAcquire s)))
   \<and> (client_last_seen s client_id = Some t \<and> t \<le> start_time
        \<and> basic_service env (release_all client_id) (backend s) = (Inr v, b) \<longrightarrow>
      teardown_locked env client_id start_time s =
        (None,
         s\<lparr>num_clients := num_clients s - 1,
           client_last_seen := (client_last_seen s)(client_id := None),
           reconnect_grace_periods := (reconnect_grace_periods s)(client_id := None),
           response_caches := (response_caches s)(client_id := None),
           backend := b,
           trace := trace s @ [LockAcquire, BackendCall (release_all client_id),
                               CounterWrite (num_clients s - 1)]
                     @ (if num_clients s - 1 = 0 then [RayShutdown] else [])
                     @ [LockRelease]\<rparr>))
   \<and> (metadata_dict c ''client_id'' = Some client_id
        \<and> DataServicer_init env client_id c start_time t0 = (True, c1, t1)
        \<and> get_response_cache client_id t1 = (a, t2)
        \<and> dispatch_loop env client_id a items
             \<lparr>cleanup_requested = False, reconnect_enabled = True\<rparr> t2 = (out, f, l3, t3)
        \<and> (case f of None \<Rightarrow> (c1, l3, t3) | Some e \<Rightarrow> handle_fault env a e c1 l3 t3)
             = (c2, l4, t4) \<longrightarrow>
      Datapath env c start_time items others t0 =
        (out, c2, teardown_locked env client_id start_time (others (teardown_wait client_id l4 t4)))
      \<and> (f = None \<longrightarrow>
           cleanup_requested l4 =
             (\<exists>req. Req req \<in> set items \<and> req_type req = Some ''connection_cleanup'')))"
proof -
  have w1: "cleanup_requested l \<or> reconnect_grace_periods s client_id = None \<longrightarrow>
      teardown_wait client_id l s = s"
    by (auto simp: teardown_wait_def)
  have w2: "\<not> cleanup_requested l \<and> reconnect_grace_periods s client_id = Some d \<longrightarrow>
      teardown_wait client_id l s = emit (StoppedWait d) s"
    by (simp add: teardown_wait_def)
  have t1: "client_last_seen s client_id = None \<longrightarrow>
      teardown_locked env client_id start_time s = (None, emit LockRelease (emit LockAcquire s))"
    by (simp add: teardown_locked_def)
  have t2: "client_last_seen s client_id = Some t \<and> start_time < t \<longrightarrow>
      teardown_locked env client_id start_time s = (None, emit LockRelease (emit LockAcquire s))"
    by (simp add: teardown_locked_def)
  have t3: "client_last_seen s client_id = Some t \<and> t \<le> start_time
        \<and> basic_service env (release_all client_id) (backend s) = (Inr v, b) \<longrightarrow>
      teardown_locked env client_id start_time s =
        (None,
         s\<lparr>num_clients := num_clients s - 1,
           client_last_seen := (client_last_seen s)(client_id := None),
           reconnect_grace_periods := (reconnect_grace_periods s)(client_id := None),
           response_caches := (response_caches s)(client_id := None),
           backend := b,
           trace := trace s @ [LockAcquire, BackendCall (release_all client_id),
                               CounterWrite (num_clients s - 1)]
                     @ (if num_clients s - 1 = 0 then [RayShutdown] else [])
                     @ [LockRelease]\<rparr>)"
    by (auto simp: teardown_locked_def call_backend_def emit_def Let_def fun_upd_idem domIff)
  have fl: "metadata_dict c ''client_id'' = Some client_id
        \<and> DataServicer_init env client_id c start_time t0 = (True, c1, t1)
        \<and> get_response_cache client_id t1 = (a, t2)
        \<and> dispatch_loop env client_id a items
             \<lparr>cleanup_requested = False, reconnect_enabled = True\<rparr> t2 = (out, f, l3, t3)
        \<and> (case f of None \<Rightarrow> (c1, l3, t3) | Some e \<Rightarrow> handle_fault env a e c1 l3 t3)
             = (c2, l4, t4) \<longrightarrow>
      Datapath env c start_time items others t0 =
        (out, c2, teardown_locked env client_id start_time (others (teardown_wait client_id l4 t4)))
      \<and> (f = None \<longrightarrow>
           cleanup_requested l4 =
             (\<exists>req. Req req \<in> set items \<and> req_type req = Some ''connection_cleanup''))"
  proof
    assume h: "metadata_dict c ''client_id'' = Some client_id
        \<and> DataServicer_init env client_id c start_time t0 = (True, c1, t1)
        \<and> get_response_cache client_id t1 = (a, t2)
        \<and> dispatch_loop env client_id a items
             \<lparr>cleanup_requested = False, reconnect_enabled = True\<rparr> t2 = (out, f, l3, t3)
        \<and> (case f of None \<Rightarrow> (c1, l3, t3) | Some e \<Rightarrow> handle_fault env a e c1 l3 t3)
             = (c2, l4, t4)"
    then have run: "Datapath env c start_time items others t0 =
        (out, c2, teardown_locked env client_id start_time (others (teardown_wait client_id l4 t4)))"
      using Datapath_accepted [of c client_id env start_time t0 c1 t1 a t2 items out f l3 t3
              c2 l4 t4 others]
      by simp
    have flag: "f = None \<longrightarrow>
           cleanup_requested l4 =
             (\<exists>req. Req req \<in> set items \<and> req_type req = Some ''connection_cleanup'')"
    proof
      assume n: "f = None"
      with h have "dispatch_loop env client_id a items
             \<lparr>cleanup_requested = False, reconnect_enabled = True\<rparr> t2 = (out, None, l3, t3)"
        and "l4 = l3"
        by simp_all
      with dispatch_loop_cleanup_requested [of env client_id a items
             "\<lparr>cleanup_requested = False, reconnect_enabled = True\<rparr>" t2 out l3 t3]
      show "cleanup_requested l4 =
             (\<exists>req. Req req \<in> set items \<and> req_type req = Some ''connection_cleanup'')"
        by simp
    qed
    from run flag show "Datapath env c start_time items others t0 =
        (out, c2, teardown_locked env client_id start_time (others (teardown_wait client_id l4 t4)))
      \<and> (f = None \<longrightarrow>
           cleanup_requested l4 =
             (\<exists>req. Req req \<in> set items \<and> req_type req = Some ''connection_cleanup''))"
      by (intro conjI)
  qed
  show ?thesis by (intro conjI) (rule w1 w2 t1 t2 t3 fl)+
qed

theorem teardown_decision_witness:
  "reconnect_grace_periods (example_servicer 1) ''c1'' = Some 30
   \<and> client_last_seen (example_servicer 1) ''c1'' = Some 1
   \<and> teardown_wait ''c1'' \<lparr>cleanup_requested = False, reconnect_enabled = True\<rparr> (example_servicer 1)
       = emit (StoppedWait 30) (example_servicer 1)
   \<and> teardown_locked example_env ''c1'' 7 (example_servicer 1) =
        (None,
         (example_servicer 1)\<lparr>num_clients := 0,
           client_last_seen := Map.empty, reconnect_grace_periods := Map.empty,
           response_caches := Map.empty, backend := 1,
           trace := [LockAcquire, BackendCall (release_all ''c1''), CounterWrite 0, RayShutdown,
                     LockRelease]\<rparr>)
   \<and> teardown_wait ''c1'' \<lparr>cleanup_requested = True, reconnect_enabled = True\<rparr> (example_servicer 1)
       = example_servicer 1
   \<and> teardown_locked example_env ''c1'' 0 (example_servicer 1)
       = (None, emit LockRelease (emit LockAcquire (example_servicer 1)))
   \<and> teardown_locked example_env ''c9'' 7 (example_servicer 1)
       = (None, emit LockRelease (emit LockAcquire (example_servicer 1)))
   \<and> trace (snd (snd (snd (Datapath example_env (example_ctx ''False'') 7
               [Req (example_request 1 ''init'' 30)] id (new_servicer 0)))))
       = [LockAcquire, CounterWrite 1, LockRelease,
          CacheCheck 0 1, BackendCall (Init ''x'' 30), LockAcquire, LockRelease, CacheUpdate 0 1,
          StoppedWait 30,
          LockAcquire, BackendCall (release_all ''c1''), CounterWrite 0, RayShutdown, LockRelease]
   \<and> trace (snd (snd (snd (Datapath example_env (example_ctx ''False'') 7
               [Req (example_request 1 ''init'' 30)]
               (\<lambda>s. s\<lparr>client_last_seen := (client_last_seen s)(''c1'' \<mapsto> 9)\<rparr>) (new_servicer 0)))))
       = [LockAcquire, CounterWrite 1, LockRelease,
          CacheCheck 0 1, BackendCall (Init ''x'' 30), LockAcquire, LockRelease, CacheUpdate 0 1,
          StoppedWait 30, LockAcquire, LockRelease]
   \<and> snd (snd (Datapath example_env (example_ctx ''False'') 7
               [Req (example_request 1 ''init'' 30), Req (example_request 2 ''connection_cleanup'' 0)]
               id (new_servicer 0)))
       = teardown_locked example_env ''c1'' 7
           (snd (snd (snd (dispatch_loop example_env ''c1'' 0
              [Req (example_request 1 ''init'' 30), Req (example_request 2 ''connection_cleanup'' 0)]
              \<lparr>cleanup_requested = False, reconnect_enabled = True\<rparr>
              (snd (get_response_cache ''c1''
                 (snd (snd (DataServicer_init example_env ''c1'' (example_ctx ''False'') 7
                    (new_servicer 0))))))))))"
proof -
  have g: "reconnect_grace_periods (example_servicer 1) ''c1'' = Some 30"
    and ls: "client_last_seen (example_servicer 1) ''c1'' = Some 1"
    and ls9: "client_last_seen (example_servicer 1) ''c9'' = None"
    by (simp_all add: example_facts)
  have rel: "basic_service example_env (release_all ''c1'') (backend (example_servicer 1))
               = (Inr BNone, 1)"
    by (simp add: example_servicer_fields example_service_release_all)
  note D = teardown_decision [where s = "example_servicer 1" and env = example_env]
  have a: "teardown_wait ''c1'' \<lparr>cleanup_requested = False, reconnect_enabled = True\<rparr>
             (example_servicer 1) = emit (StoppedWait 30) (example_servicer 1)"
    using D [where l = "\<lparr>cleanup_requested = False, reconnect_enabled = True\<rparr>"
               and client_id = "''c1''" and d = 30, THEN conjunct2, THEN conjunct1] g
    by simp
  have b: "teardown_locked example_env ''c1'' 7 (example_servicer 1) =
        (None,
         (example_servicer 1)\<lparr>num_clients := 0,
           client_last_seen := Map.empty, reconnect_grace_periods := Map.empty,
           response_caches := Map.empty, backend := 1,
           trace := [LockAcquire, BackendCall (release_all ''c1''), CounterWrite 0, RayShutdown,
                     LockRelease]\<rparr>)"
    using D [where client_id = "''c1''" and start_time = 7 and t = 1 and v = BNone and b = 1,
             THEN conjunct2, THEN conjunct2, THEN conjunct2, THEN conjunct2, THEN conjunct1] ls rel
    by (simp add: example_facts example_servicer_fields)
  have c: "teardown_wait ''c1'' \<lparr>cleanup_requested = True, reconnect_enabled = True\<rparr>
             (example_servicer 1) = example_servicer 1"
    using D [where l = "\<lparr>cleanup_requested = True, reconnect_enabled = True\<rparr>"
               and client_id = "''c1''", THEN conjunct1]
    by simp
  have d: "teardown_locked example_env ''c1'' 0 (example_servicer 1)
       = (None, emit LockRelease (emit LockAcquire (example_servicer 1)))"
    using D [where client_id = "''c1''" and start_time = 0 and t = 1,
             THEN conjunct2, THEN conjunct2, THEN conjunct2, THEN conjunct1] ls
    by simp
  have e: "teardown_locked example_env ''c9'' 7 (example_servicer 1)
       = (None, emit LockRelease (emit LockAcquire (example_servicer 1)))"
    using D [where client_id = "''c9''" and start_time = 7,
             THEN conjunct2, THEN conjunct2, THEN conjunct1] ls9
    by simp
  have run1: "trace (snd (snd (snd (Datapath example_env (example_ctx ''False'') 7
               [Req (example_request 1 ''init'' 30)] id (new_servicer 0)))))
       = [LockAcquire, CounterWrite 1, LockRelease,
          CacheCheck 0 1, BackendCall (Init ''x'' 30), LockAcquire, LockRelease, CacheUpdate 0 1,
          StoppedWait 30,
          LockAcquire, BackendCall (release_all ''c1''), CounterWrite 0, RayShutdown, LockRelease]"
    by (simp add: example_run example_teardown)
  have run2: "trace (snd (snd (snd (Datapath example_env (example_ctx ''False'') 7
               [Req (example_request 1 ''init'' 30)]
               (\<lambda>s. s\<lparr>client_last_seen := (client_last_seen s)(''c1'' \<mapsto> 9)\<rparr>) (new_servicer 0)))))
       = [LockAcquire, CounterWrite 1, LockRelease,
          CacheCheck 0 1, BackendCall (Init ''x'' 30), LockAcquire, LockRelease, CacheUpdate 0 1,
          StoppedWait 30, LockAcquire, LockRelease]"
    by (simp add: example_run example_teardown)
  let ?L = "\<lparr>cleanup_requested = False, reconnect_enabled = True\<rparr>"
  let ?c = "example_ctx ''False''"
  let ?items = "[Req (example_request 1 ''init'' 30), Req (example_request 2 ''connection_cleanup'' 0)]"
  let ?I = "DataServicer_init example_env ''c1'' ?c 7 (new_servicer (0::nat))"
  let ?G = "get_response_cache ''c1'' (snd (snd ?I))"
  let ?Lp = "dispatch_loop example_env ''c1'' 0 ?items ?L (snd ?G)"
  have md: "metadata_dict ?c ''client_id'' = Some ''c1''"
    by (simp add: metadata_dict_def example_ctx_def)
  have i: "?I = (True, ?c, snd (snd ?I))"
    by (simp add: prod_eq_iff DataServicer_init_def Let_def threshold_example reconnecting_example
          new_servicer_def)
  have gc: "?G = (0, snd ?G)"
    by (simp add: prod_eq_iff get_response_cache_def DataServicer_init_def Let_def threshold_example
          reconnecting_example new_servicer_def)
  have lp: "?Lp = (fst ?Lp, None, fst (snd (snd ?Lp)), snd (snd (snd ?Lp)))"
    by (simp add: prod_eq_iff get_response_cache_def DataServicer_init_def threshold_example
          reconnecting_example example_run)
  have h: "(case None of None \<Rightarrow> (?c, fst (snd (snd ?Lp)), snd (snd (snd ?Lp)))
            | Some e \<Rightarrow> handle_fault example_env 0 e ?c (fst (snd (snd ?Lp))) (snd (snd (snd ?Lp))))
           = (?c, fst (snd (snd ?Lp)), snd (snd (snd ?Lp)))"
    by simp
  note R = teardown_decision
             [where env = example_env and client_id = "''c1''" and a = 0 and c = ?c
                and start_time = 7 and ?t0.0 = "new_servicer 0" and ?c1.0 = ?c
                and ?t1.0 = "snd (snd ?I)" and ?t2.0 = "snd ?G" and items = ?items
                and out = "fst ?Lp" and f = None and ?l3.0 = "fst (snd (snd ?Lp))"
                and ?t3.0 = "snd (snd (snd ?Lp))"
                and ?c2.0 = ?c and ?l4.0 = "fst (snd (snd ?Lp))" and ?t4.0 = "snd (snd (snd ?Lp))"
                and others = id,
              THEN conjunct2, THEN conjunct2, THEN conjunct2, THEN conjunct2, THEN conjunct2,
              THEN mp, OF conjI [OF md conjI [OF i conjI [OF gc conjI [OF lp h]]]]]
  have ex: "\<exists>req. Req req \<in> set ?items \<and> req_type req = Some ''connection_cleanup''"
    by (rule exI [of _ "example_request 2 ''connection_cleanup'' 0"]) simp
  have req: "cleanup_requested (fst (snd (snd ?Lp)))"
    by (rule iffD2 [OF R [THEN conjunct2, THEN mp, OF refl] ex])
  have run3: "snd (snd (Datapath example_env ?c 7 ?items id (new_servicer 0)))
       = teardown_locked example_env ''c1'' 7 (snd (snd (snd ?Lp)))"
    using R [THEN conjunct1] req
          teardown_decision [where l = "fst (snd (snd ?Lp))" and s = "snd (snd (snd ?Lp))"
             and client_id = "''c1''", THEN conjunct1]
    by (simp del: dispatch_loop.simps)
  show ?thesis by (intro conjI) (rule g ls a b c d e run1 run2 run3)+
qed

text \<open>
  Claim C5. In every reachable execution, \<^verbatim>\<open>ray.shutdown\<close> is invoked only while the
  registry lock is held and only when the active-client counter has just reached
  zero, never while it is nonzero: the monitor accepts the trace of every reachable
  servicer, the counter it reads from the trace is the servicer's counter, and
  between steps the lock is free.
\<close>

theorem shutdown_guarded:
  "reachable env s \<Longrightarrow>
     guarded (observe_trace (trace s)) \<and> counter_value (observe_trace (trace s)) = num_clients s
     \<and> \<not> lock_held (observe_trace (trace s))"
  using reachable_invariant [of env s] by simp

theorem shutdown_guarded_witness:
  "reachable example_env
     (snd (teardown_locked example_env ''c1'' 7
        (snd (snd (DataServicer_init example_env ''c1'' (example_ctx ''False'') 7 (new_servicer 0))))))
   \<and> trace (snd (teardown_locked example_env ''c1'' 7
        (snd (snd (DataServicer_init example_env ''c1'' (example_ctx ''False'') 7 (new_servicer 0))))))
      = [LockAcquire, CounterWrite 1, LockRelease,
         LockAcquire, BackendCall (release_all ''c1''), CounterWrite 0, RayShutdown, LockRelease]
   \<and> guarded (observe_trace (trace (snd (teardown_locked example_env ''c1'' 7
        (snd (snd (DataServicer_init example_env ''c1'' (example_ctx ''False'') 7 (new_servicer 0))))))))
   \<and> \<not> guarded (observe_trace [RayShutdown])
   \<and> \<not> guarded (observe_trace [LockAcquire, RayShutdown, LockRelease])
   \<and> \<not> guarded (observe_trace [LockAcquire, CounterWrite 1, LockRelease,
                                  LockAcquire, CounterWrite 0, LockRelease, RayShutdown])
   \<and> \<not> guarded (observe_trace [LockAcquire, CounterWrite 2, LockRelease,
                                  LockAcquire, CounterWrite 1, RayShutdown, LockRelease])"
proof -
  let ?s1 = "snd (snd (DataServicer_init example_env ''c1'' (example_ctx ''False'') 7 (new_servicer 0)))"
  let ?s2 = "snd (teardown_locked example_env ''c1'' 7 ?s1)"
  have r0: "reachable example_env (new_servicer (0::nat))" by (rule reachable.start)
  have r1: "reachable example_env ?s1"
    by (rule reachable.connect [OF r0, of "''c1''" "example_ctx ''False''" 7
          "fst (DataServicer_init example_env ''c1'' (example_ctx ''False'') 7 (new_servicer 0))"
          "fst (snd (DataServicer_init example_env ''c1'' (example_ctx ''False'') 7 (new_servicer 0)))"])
       simp
  have r2: "reachable example_env ?s2"
    by (rule reachable.teardown [OF r1, of "''c1''" 7
          "fst (teardown_locked example_env ''c1'' 7 ?s1)"]) simp
  have s1: "?s1 = (new_servicer 0)\<lparr>num_clients := 1, client_last_seen := [''c1'' \<mapsto> 7],
                     trace := [LockAcquire, CounterWrite 1, LockRelease]\<rparr>"
    by (simp add: DataServicer_init_def Let_def threshold_example reconnecting_example
          new_servicer_def emit_def)
  have tr: "trace ?s2 = [LockAcquire, CounterWrite 1, LockRelease,
         LockAcquire, BackendCall (release_all ''c1''), CounterWrite 0, RayShutdown, LockRelease]"
    unfolding s1
    by (simp add: teardown_locked_def call_backend_def example_service_release_all new_servicer_def
          Let_def emit_def)
  have g: "guarded (observe_trace (trace ?s2))"
    using shutdown_guarded [OF r2] by simp
  have bad: "\<not> guarded (observe_trace [RayShutdown])"
      "\<not> guarded (observe_trace [LockAcquire, RayShutdown, LockRelease])"
      "\<not> guarded (observe_trace [LockAcquire, CounterWrite 1, LockRelease,
                                  LockAcquire, CounterWrite 0, LockRelease, RayShutdown])"
      "\<not> guarded (observe_trace [LockAcquire, CounterWrite 2, LockRelease,
                                  LockAcquire, CounterWrite 1, RayShutdown, LockRelease])"
    by (simp_all add: observe_trace_def)
  show ?thesis by (intro conjI) (rule r2 tr g bad)+
qed

subsection \<open>The dispatch loop and the cache\<close>

text \<open>
  Claim C8. An \<open>acknowledge\<close> request only removes the entry of the acknowledged
  request id from the connection's response cache: the loop body ends with
  \<^verbatim>\<open>continue\<close>, no response is yielded (the loop goes on with the remaining items), no
  backend capability is called (the trace gains the cache cleanup and nothing else),
  and the locals, the last-seen times, the grace periods, the counter and every other
  cache are as before.
\<close>

theorem acknowledge_only_cleans_cache:
  assumes "req_type req = Some ''acknowledge''"
  shows "process_item env client_id a (Req req) l s =
           (Continue, l,
            s\<lparr>cache_heap := (cache_heap s)
                 (a := (cache_heap s a)\<lparr>entries :=
                          (entries (cache_heap s a))(acknowledge_req_id req := None)\<rparr>),
              trace := trace s @ [CacheCleanup a (acknowledge_req_id req)]\<rparr>)
         \<and> dispatch_loop env client_id a (Req req # items) l s =
             dispatch_loop env client_id a items l
               (s\<lparr>cache_heap := (cache_heap s)
                    (a := (cache_heap s a)\<lparr>entries :=
                             (entries (cache_heap s a))(acknowledge_req_id req := None)\<rparr>),
                 trace := trace s @ [CacheCleanup a (acknowledge_req_id req)]\<rparr>)"
proof -
  have nc: "\<not> should_cache req" using assms by (simp add: should_cache_def)
  have step: "process_item env client_id a (Req req) l s =
           (Continue, l,
            s\<lparr>cache_heap := (cache_heap s)
                 (a := (cache_heap s a)\<lparr>entries :=
                          (entries (cache_heap s a))(acknowledge_req_id req := None)\<rparr>),
              trace := trace s @ [CacheCleanup a (acknowledge_req_id req)]\<rparr>)"
    using nc by (simp add: process_item_def dispatch_acknowledge [OF assms] cleanup_def)
  then show ?thesis by simp
qed

theorem acknowledge_only_cleans_cache_witness:
  "req_type (example_request 1 ''acknowledge'' 0) = Some ''acknowledge''
   \<and> entries (cache_heap example_cached 0) 1 = Some (DataResponse (PutResponse (BVal ''ok'')) 1)
   \<and> process_item example_env ''c1'' 0 (Req (example_request 1 ''acknowledge'' 0))
        \<lparr>cleanup_requested = False, reconnect_enabled = True\<rparr> example_cached
      = (Continue, \<lparr>cleanup_requested = False, reconnect_enabled = True\<rparr>,
         example_cached\<lparr>cache_heap := (cache_heap example_cached)
                          (0 := \<lparr>entries = Map.empty, broken = None\<rparr>),
                        trace := [CacheCleanup 0 1]\<rparr>)"
  using acknowledge_only_cleans_cache [of "example_request 1 ''acknowledge'' 0" example_env "''c1''" 0
          "\<lparr>cleanup_requested = False, reconnect_enabled = True\<rparr>" example_cached "[]"]
  by (simp add: example_cached_fields)

text \<open>
  Claim C6, as stated, fails in three ways. The flag is a local of the handler: after
  an init with period 0 on the first connection of a client, a second connection of
  the same client id, admitted while the first waits in its teardown, has its put
  checked against the cache and cached. An init whose request id is already in the
  cache is replayed: its period 0 is not recorded (the registry keeps 30) and the
  next put is checked and cached. An init whose \<^verbatim>\<open>Init\<close> call raises records nothing.
\<close>

theorem init_grace_period_counterexample:
  "trace (snd (snd (snd (Datapath example_env (example_ctx ''False'') 7
        [Req (example_request 1 ''init'' 0)]
        (\<lambda>s. snd (snd (snd (Datapath example_env (example_ctx ''True'') 8
                 [Req (example_request 2 ''put'' 0)] id s))))
        (new_servicer 0)))))
     = [LockAcquire, CounterWrite 1, LockRelease,
        CacheCheck 0 1, BackendCall (Init ''x'' 0), LockAcquire, LockRelease, StoppedWait 0,
        LockAcquire, LockRelease,
        CacheCheck 0 2, BackendCall (put_object ''x'' ''c1''), CacheUpdate 0 2, StoppedWait 0,
        LockAcquire, BackendCall (release_all ''c1''), CounterWrite 0, RayShutdown, LockRelease,
        LockAcquire, LockRelease]
   \<and> dispatch_loop example_env ''c1'' 0
        [Req (example_request 1 ''init'' 30), Req (example_request 1 ''init'' 0),
         Req (example_request 2 ''put'' 0)]
        \<lparr>cleanup_requested = False, reconnect_enabled = True\<rparr> example_connected
      = ([DataResponse (InitResponse (BVal ''ok'')) 1, DataResponse (InitResponse (BVal ''ok'')) 1,
          DataResponse (PutResponse (BVal ''ok'')) 2],
         None, \<lparr>cleanup_requested = False, reconnect_enabled = True\<rparr>,
         snd (snd (snd (dispatch_loop example_env ''c1'' 0
           [Req (example_request 1 ''init'' 30), Req (example_request 1 ''init'' 0),
            Req (example_request 2 ''put'' 0)]
           \<lparr>cleanup_requested = False, reconnect_enabled = True\<rparr> example_connected))))
   \<and> reconnect_grace_periods (snd (snd (snd (dispatch_loop example_env ''c1'' 0
        [Req (example_request 1 ''init'' 30), Req (example_request 1 ''init'' 0),
         Req (example_request 2 ''put'' 0)]
        \<lparr>cleanup_requested = False, reconnect_enabled = True\<rparr> example_connected)))) ''c1''
      = Some 30
   \<and> trace (snd (snd (snd (dispatch_loop example_env ''c1'' 0
        [Req (example_request 1 ''init'' 30), Req (example_request 1 ''init'' 0),
         Req (example_request 2 ''put'' 0)]
        \<lparr>cleanup_requested = False, reconnect_enabled = True\<rparr> example_connected))))
      = [LockAcquire, CounterWrite 1, LockRelease,
         CacheCheck 0 1, BackendCall (Init ''x'' 30), LockAcquire, LockRelease, CacheUpdate 0 1,
         CacheCheck 0 1,
         CacheCheck 0 2, BackendCall (put_object ''x'' ''c1''), CacheUpdate 0 2]
   \<and> fst (process_item example_Init_raises ''c1'' 0 (Req (example_request 1 ''init'' 0))
        \<lparr>cleanup_requested = False, reconnect_enabled = True\<rparr> example_connected)
      = Raise (Fault ''Init'')
   \<and> reconnect_grace_periods (snd (snd (process_item example_Init_raises ''c1'' 0
        (Req (example_request 1 ''init'' 0))
        \<lparr>cleanup_requested = False, reconnect_enabled = True\<rparr> example_connected))) ''c1''
      = None"
proof -
  have two: "trace (snd (snd (snd (Datapath example_env (example_ctx ''False'') 7
        [Req (example_request 1 ''init'' 0)]
        (\<lambda>s. snd (snd (snd (Datapath example_env (example_ctx ''True'') 8
                 [Req (example_request 2 ''put'' 0)] id s))))
        (new_servicer 0)))))
     = [LockAcquire, CounterWrite 1, LockRelease,
        CacheCheck 0 1, BackendCall (Init ''x'' 0), LockAcquire, LockRelease, StoppedWait 0,
        LockAcquire, LockRelease,
        CacheCheck 0 2, BackendCall (put_object ''x'' ''c1''), CacheUpdate 0 2, StoppedWait 0,
        LockAcquire, BackendCall (release_all ''c1''), CounterWrite 0, RayShutdown, LockRelease,
        LockAcquire, LockRelease]"
    by (simp add: example_run example_teardown)
  have rep: "dispatch_loop example_env ''c1'' 0
        [Req (example_request 1 ''init'' 30), Req (example_request 1 ''init'' 0),
         Req (example_request 2 ''put'' 0)]
        \<lparr>cleanup_requested = False, reconnect_enabled = True\<rparr> example_connected
      = ([DataResponse (InitResponse (BVal ''ok'')) 1, DataResponse (InitResponse (BVal ''ok'')) 1,
          DataResponse (PutResponse (BVal ''ok'')) 2],
         None, \<lparr>cleanup_requested = False, reconnect_enabled = True\<rparr>,
         snd (snd (snd (dispatch_loop example_env ''c1'' 0
           [Req (example_request 1 ''init'' 30), Req (example_request 1 ''init'' 0),
            Req (example_request 2 ''put'' 0)]
           \<lparr>cleanup_requested = False, reconnect_enabled = True\<rparr> example_connected))))"
    by (simp add: prod_eq_iff example_connected_eq example_run)
  have rep_g: "reconnect_grace_periods (snd (snd (snd (dispatch_loop example_env ''c1'' 0
        [Req (example_request 1 ''init'' 30), Req (example_request 1 ''init'' 0),
         Req (example_request 2 ''put'' 0)]
        \<lparr>cleanup_requested = False, reconnect_enabled = True\<rparr> example_connected)))) ''c1''
      = Some 30"
    by (simp add: example_connected_eq example_run)
  have rep_t: "trace (snd (snd (snd (dispatch_loop example_env ''c1'' 0
        [Req (example_request 1 ''init'' 30), Req (example_request 1 ''init'' 0),
         Req (example_request 2 ''put'' 0)]
        \<lparr>cleanup_requested = False, reconnect_enabled = True\<rparr> example_connected))))
      = [LockAcquire, CounterWrite 1, LockRelease,
         CacheCheck 0 1, BackendCall (Init ''x'' 30), LockAcquire, LockRelease, CacheUpdate 0 1,
         CacheCheck 0 1,
         CacheCheck 0 2, BackendCall (put_object ''x'' ''c1''), CacheUpdate 0 2]"
    by (simp add: example_connected_eq example_run)
  have r1: "fst (process_item example_Init_raises ''c1'' 0 (Req (example_request 1 ''init'' 0))
        \<lparr>cleanup_requested = False, reconnect_enabled = True\<rparr> example_connected)
      = Raise (Fault ''Init'')"
    by (simp add: example_connected_eq example_Init_raises_def example_run)
  have r2: "reconnect_grace_periods (snd (snd (process_item example_Init_raises ''c1'' 0
        (Req (example_request 1 ''init'' 0))
        \<lparr>cleanup_requested = False, reconnect_enabled = True\<rparr> example_connected))) ''c1''
      = None"
    by (simp add: example_connected_eq example_Init_raises_def example_run)
  show ?thesis by (intro conjI) (rule two rep rep_g rep_t r1 r2)+
qed

text \<open>
  Claim C6, amended. An \<open>init\<close> request that the loop dispatches (it is not answered
  from the cache) and whose \<^verbatim>\<open>Init\<close> call returns records the requested grace period
  in the registry under the client id. If that period is exactly zero, reconnection
  and caching are disabled for the rest of this connection's loop: the init
  response itself is not cached, and whatever items the loop of this connection
  processes afterwards, reconnection stays disabled and the trace gains no cache
  check and no cache update.
\<close>

theorem init_records_grace_period:
  assumes "req_type req = Some ''init''"
      and "reconnect_enabled l \<longrightarrow> check_cache (cache_heap s a) (req_id req) = Absent"
      and "basic_service env (Init (payload req) (reconnect_grace_period req)) (backend s) = (Inr v, b)"
      and "process_item env client_id a (Req req) l s = (out, l1, s1)"
  shows "reconnect_grace_periods s1 client_id = Some (reconnect_grace_period req)
         \<and> (reconnect_grace_period req \<noteq> 0 \<longrightarrow> l1 = l)
         \<and> (reconnect_grace_period req = 0 \<longrightarrow>
              \<not> reconnect_enabled l1
              \<and> filter cache_access (trace s1) =
                  filter cache_access
                    (trace (if reconnect_enabled l then emit (CacheCheck a (req_id req)) s else s))
              \<and> (\<forall>items.
                   \<not> reconnect_enabled (fst (snd (snd (dispatch_loop env client_id a items l1 s1))))
                   \<and> filter cache_access
                        (trace (snd (snd (snd (dispatch_loop env client_id a items l1 s1)))))
                      = filter cache_access (trace s1)))"
proof -
  let ?s = "if should_cache req \<and> reconnect_enabled l then emit (CacheCheck a (req_id req)) s else s"
  have sc: "should_cache req" using assms(1) by (simp add: should_cache_def)
  have bk: "basic_service env (Init (payload req) (reconnect_grace_period req)) (backend ?s) = (Inr v, b)"
    using assms(3) by simp
  have "dispatch env client_id a req l ?s = (out, l1, s1)"
    using process_item_uncached [OF assms(2), of env client_id] assms(4) by simp
  then have fin: "finish a req (InitResponse v)
             (if reconnect_grace_period req = 0 then l\<lparr>reconnect_enabled := False\<rparr> else l)
             (emit LockRelease
               ((emit LockAcquire
                  (?s\<lparr>backend := b,
                     trace := trace ?s @ [BackendCall (Init (payload req) (reconnect_grace_period req))]\<rparr>))
                \<lparr>reconnect_grace_periods :=
                   (reconnect_grace_periods ?s)(client_id \<mapsto> reconnect_grace_period req)\<rparr>))
           = (out, l1, s1)"
    using dispatch_init_returns [OF assms(1) bk, of client_id a l] by simp
  note fr = finish_frame [OF fin]
  have g: "reconnect_grace_periods s1 client_id = Some (reconnect_grace_period req)"
    using fr by simp
  have nz: "reconnect_grace_period req \<noteq> 0 \<longrightarrow> l1 = l"
    using fr by simp
  have z: "reconnect_grace_period req = 0 \<longrightarrow>
              \<not> reconnect_enabled l1
              \<and> filter cache_access (trace s1) =
                  filter cache_access
                    (trace (if reconnect_enabled l then emit (CacheCheck a (req_id req)) s else s))
              \<and> (\<forall>items.
                   \<not> reconnect_enabled (fst (snd (snd (dispatch_loop env client_id a items l1 s1))))
                   \<and> filter cache_access
                        (trace (snd (snd (snd (dispatch_loop env client_id a items l1 s1)))))
                      = filter cache_access (trace s1))"
  proof
    assume zero: "reconnect_grace_period req = 0"
    with fr have dis: "\<not> reconnect_enabled l1" by simp
    from zero fr have "s1 = emit LockRelease
               ((emit LockAcquire
                  (?s\<lparr>backend := b,
                     trace := trace ?s @ [BackendCall (Init (payload req) (reconnect_grace_period req))]\<rparr>))
                \<lparr>reconnect_grace_periods :=
                   (reconnect_grace_periods ?s)(client_id \<mapsto> reconnect_grace_period req)\<rparr>)"
      by simp
    then have tr: "filter cache_access (trace s1) =
                  filter cache_access
                    (trace (if reconnect_enabled l then emit (CacheCheck a (req_id req)) s else s))"
      using sc by simp
    have lp: "\<forall>items.
                   \<not> reconnect_enabled (fst (snd (snd (dispatch_loop env client_id a items l1 s1))))
                   \<and> filter cache_access
                        (trace (snd (snd (snd (dispatch_loop env client_id a items l1 s1)))))
                      = filter cache_access (trace s1)"
    proof
      fix items
      obtain out2 f2 l2 s2 where
        "dispatch_loop env client_id a items l1 s1 = (out2, f2, l2, s2)"
        by (cases "dispatch_loop env client_id a items l1 s1")
      with dispatch_loop_disabled [OF this dis]
      show "\<not> reconnect_enabled (fst (snd (snd (dispatch_loop env client_id a items l1 s1))))
                   \<and> filter cache_access
                        (trace (snd (snd (snd (dispatch_loop env client_id a items l1 s1)))))
                      = filter cache_access (trace s1)"
        by simp
    qed
    from dis tr lp show "\<not> reconnect_enabled l1
              \<and> filter cache_access (trace s1) =
                  filter cache_access
                    (trace (if reconnect_enabled l then emit (CacheCheck a (req_id req)) s else s))
              \<and> (\<forall>items.
                   \<not> reconnect_enabled (fst (snd (snd (dispatch_loop env client_id a items l1 s1))))
                   \<and> filter cache_access
                        (trace (snd (snd (snd (dispatch_loop env client_id a items l1 s1)))))
                      = filter cache_access (trace s1))"
      by (intro conjI)
  qed
  show ?thesis by (intro conjI) (rule g nz z)+
qed

theorem init_records_grace_period_witness:
  "req_type (example_request 1 ''init'' 0) = Some ''init''
   \<and> check_cache (cache_heap (example_servicer 1) 0) (req_id (example_request 1 ''init'' 0)) = Absent
   \<and> reconnect_grace_periods
        (snd (snd (process_item example_env ''c1'' 0 (Req (example_request 1 ''init'' 0))
                     \<lparr>cleanup_requested = False, reconnect_enabled = True\<rparr> (example_servicer 1))))
        ''c1'' = Some 0
   \<and> \<not> reconnect_enabled
        (fst (snd (process_item example_env ''c1'' 0 (Req (example_request 1 ''init'' 0))
                     \<lparr>cleanup_requested = False, reconnect_enabled = True\<rparr> (example_servicer 1))))
   \<and> filter cache_access
        (trace (snd (snd (snd (dispatch_loop example_env ''c1'' 0
           [Req (example_request 2 ''put'' 0), Req (example_request 2 ''put'' 0)]
           (fst (snd (process_item example_env ''c1'' 0 (Req (example_request 1 ''init'' 0))
                     \<lparr>cleanup_requested = False, reconnect_enabled = True\<rparr> (example_servicer 1))))
           (snd (snd (process_item example_env ''c1'' 0 (Req (example_request 1 ''init'' 0))
                     \<lparr>cleanup_requested = False, reconnect_enabled = True\<rparr> (example_servicer 1)))))))))
       = [CacheCheck 0 1]
   \<and> trace (snd (snd (snd (dispatch_loop example_env ''c1'' 0
           [Req (example_request 1 ''init'' 0), Req (example_request 2 ''put'' 0),
            Req (example_request 2 ''put'' 0)]
           \<lparr>cleanup_requested = False, reconnect_enabled = True\<rparr> (example_servicer 1)))))
       = [CacheCheck 0 1, BackendCall (Init ''x'' 0), LockAcquire, LockRelease,
          BackendCall (put_object ''x'' ''c1''), BackendCall (put_object ''x'' ''c1'')]"
proof -
  let ?L = "\<lparr>cleanup_requested = False, reconnect_enabled = True\<rparr>"
  let ?P = "process_item example_env ''c1'' 0 (Req (example_request 1 ''init'' 0)) ?L (example_servicer 1)"
  have k: "req_type (example_request 1 ''init'' 0) = Some ''init''" by simp
  have ab: "check_cache (cache_heap (example_servicer 1) 0) (req_id (example_request 1 ''init'' 0)) = Absent"
    by (simp add: check_cache_def example_servicer_fields empty_cache_def)
  have bk: "basic_service example_env
              (Init (payload (example_request 1 ''init'' 0))
                 (reconnect_grace_period (example_request 1 ''init'' 0)))
              (backend (example_servicer 1)) = (Inr (BVal ''ok''), 1)"
    by (simp add: example_env_def example_service_def example_servicer_fields)
  have P: "?P = (fst ?P, fst (snd ?P), snd (snd ?P))" by simp
  have pre: "reconnect_enabled ?L \<longrightarrow>
      check_cache (cache_heap (example_servicer 1) 0) (req_id (example_request 1 ''init'' 0)) = Absent"
    using ab by simp
  note T = init_records_grace_period [OF k pre bk P]
  have T': "reconnect_grace_periods (snd (snd ?P)) ''c1'' = Some 0
       \<and> \<not> reconnect_enabled (fst (snd ?P))
       \<and> filter cache_access (trace (snd (snd ?P))) = [CacheCheck 0 1]
       \<and> filter cache_access
        (trace (snd (snd (snd (dispatch_loop example_env ''c1'' 0
           [Req (example_request 2 ''put'' 0), Req (example_request 2 ''put'' 0)]
           (fst (snd ?P)) (snd (snd ?P)))))))
         = filter cache_access (trace (snd (snd ?P)))"
    using T by (simp del: dispatch_loop.simps add: example_servicer_fields)
  have full: "trace (snd (snd (snd (dispatch_loop example_env ''c1'' 0
           [Req (example_request 1 ''init'' 0), Req (example_request 2 ''put'' 0),
            Req (example_request 2 ''put'' 0)] ?L (example_servicer 1)))))
       = [CacheCheck 0 1, BackendCall (Init ''x'' 0), LockAcquire, LockRelease,
          BackendCall (put_object ''x'' ''c1''), BackendCall (put_object ''x'' ''c1'')]"
    by (simp add: example_run)
  from k ab T' full show ?thesis by simp
qed



subsection \<open>Faults\<close>

text \<open>
  Claim C7, as stated, fails for an unrecognized request whose id is in the cache:
  the cache check comes before the dispatch chain and unknown kinds are cacheable,
  so after a put with id 1 a request of kind \<open>task\<close> with id 1 is answered with the
  cached put response; no fault is raised, the cache is not invalidated and the
  status is not set.
\<close>

theorem unrecognized_cached_id_counterexample:
  "req_type (example_request 1 ''task'' 0) \<notin> {Some ''init'', Some ''get'', Some ''put'',
       Some ''release'', Some ''connection_info'', Some ''prep_runtime_env'',
       Some ''connection_cleanup'', Some ''acknowledge''}
   \<and> Datapath example_env (example_ctx ''False'') 7
        [Req (example_request 1 ''put'' 0), Req (example_request 1 ''task'' 0)] id (new_servicer 0)
      = ([DataResponse (PutResponse (BVal ''ok'')) 1, DataResponse (PutResponse (BVal ''ok'')) 1],
         example_ctx ''False'', None,
         snd (snd (snd (Datapath example_env (example_ctx ''False'') 7
           [Req (example_request 1 ''put'' 0), Req (example_request 1 ''task'' 0)] id
           (new_servicer 0)))))
   \<and> code (example_ctx ''False'') = None
   \<and> trace (snd (snd (snd (Datapath example_env (example_ctx ''False'') 7
        [Req (example_request 1 ''put'' 0), Req (example_request 1 ''task'' 0)] id (new_servicer 0)))))
      = [LockAcquire, CounterWrite 1, LockRelease,
         CacheCheck 0 1, BackendCall (put_object ''x'' ''c1''), CacheUpdate 0 1, CacheCheck 0 1,
         LockAcquire, BackendCall (release_all ''c1''), CounterWrite 0, RayShutdown, LockRelease]"
  by (simp add: prod_eq_iff example_run example_teardown)

text \<open>
  Claim C7, amended. A request of an unrecognized kind that is not answered from the
  cache raises: the dispatch chain raises the \<open>Unreachable\<close> fault, without any
  effect; the loop body raises it whenever the cache has nothing for the request id
  (or reconnection is disabled), and raises the recorded failure when the cache is
  broken; the loop ends with that fault. Every fault that leaves the loop of an
  accepted connection goes to the handler, which classifies it with
  \<^verbatim>\<open>_propagate_error_in_context\<close>, invalidates the response cache with it (every
  later check returns the fault), and, when the fault is unrecoverable or the cache
  refuses it, sets the status \<open>FAILED_PRECONDITION\<close> and requests cleanup, so that
  the teardown block does not wait for the grace period.
\<close>

theorem unrecognized_request_and_faults:
  "(req_type req \<notin> {Some ''init'', Some ''get'', Some ''put'', Some ''release'',
       Some ''connection_info'', Some ''prep_runtime_env'', Some ''connection_cleanup'',
       Some ''acknowledge''} \<longrightarrow>
      dispatch env client_id a req l s = (Raise (Unreachable (req_type req)), l, s)
      \<and> ((reconnect_enabled l \<longrightarrow> check_cache (cache_heap s a) (req_id req) = Absent) \<longrightarrow>
           fst (process_item env client_id a (Req req) l s) = Raise (Unreachable (req_type req))
           \<and> fst (snd (dispatch_loop env client_id a (Req req # items) l s))
               = Some (Unreachable (req_type req)))
      \<and> (reconnect_enabled l \<and> check_cache (cache_heap s a) (req_id req) = Failure e0 \<longrightarrow>
           fst (process_item env client_id a (Req req) l s) = Raise e0))
   \<and> (propagate_error_in_context env e ctx = (recoverable, ctx1) \<longrightarrow>
        handle_fault env a e ctx l s =
          (if \<not> recoverable \<or> invalidate_refused env e (cache_heap s a)
           then (ctx1\<lparr>code := Some FAILED_PRECONDITION\<rparr>, l\<lparr>cleanup_requested := True\<rparr>,
                 s\<lparr>cache_heap := (cache_heap s)(a := (cache_heap s a)\<lparr>broken := Some e\<rparr>),
                   trace := trace s @ [CacheInvalidate a e]\<rparr>)
           else (ctx1, l,
                 s\<lparr>cache_heap := (cache_heap s)(a := (cache_heap s a)\<lparr>broken := Some e\<rparr>),
                   trace := trace s @ [CacheInvalidate a e]\<rparr>))
        \<and> check_cache (cache_heap (snd (snd (handle_fault env a e ctx l s))) a) i = Failure e
        \<and> (\<not> recoverable \<or> invalidate_refused env e (cache_heap s a) \<longrightarrow>
             teardown_wait client_id (fst (snd (handle_fault env a e ctx l s)))
               (snd (snd (handle_fault env a e ctx l s)))
             = snd (snd (handle_fault env a e ctx l s))))
   \<and> (metadata_dict c ''client_id'' = Some client_id
        \<and> DataServicer_init env client_id c start_time t0 = (True, c1, t1)
        \<and> get_response_cache client_id t1 = (a, t2)
        \<and> dispatch_loop env client_id a items
             \<lparr>cleanup_requested = False, reconnect_enabled = True\<rparr> t2 = (out, Some e, l3, t3)
        \<and> handle_fault env a e c1 l3 t3 = (c2, l4, t4) \<longrightarrow>
        Datapath env c start_time items others t0 =
          (out, c2,
           teardown_locked env client_id start_time (others (teardown_wait client_id l4 t4))))"
proof -
  have u: "req_type req \<notin> {Some ''init'', Some ''get'', Some ''put'', Some ''release'',
       Some ''connection_info'', Some ''prep_runtime_env'', Some ''connection_cleanup'',
       Some ''acknowledge''} \<longrightarrow>
      dispatch env client_id a req l s = (Raise (Unreachable (req_type req)), l, s)
      \<and> ((reconnect_enabled l \<longrightarrow> check_cache (cache_heap s a) (req_id req) = Absent) \<longrightarrow>
           fst (process_item env client_id a (Req req) l s) = Raise (Unreachable (req_type req))
           \<and> fst (snd (dispatch_loop env client_id a (Req req # items) l s))
               = Some (Unreachable (req_type req)))
      \<and> (reconnect_enabled l \<and> check_cache (cache_heap s a) (req_id req) = Failure e0 \<longrightarrow>
           fst (process_item env client_id a (Req req) l s) = Raise e0)"
  proof
    assume k: "req_type req \<notin> {Some ''init'', Some ''get'', Some ''put'', Some ''release'',
       Some ''connection_info'', Some ''prep_runtime_env'', Some ''connection_cleanup'',
       Some ''acknowledge''}"
    have d: "\<And>s'. dispatch env client_id a req l s' = (Raise (Unreachable (req_type req)), l, s')"
      using dispatch_unrecognized [OF k] .
    have p: "(reconnect_enabled l \<longrightarrow> check_cache (cache_heap s a) (req_id req) = Absent) \<longrightarrow>
           fst (process_item env client_id a (Req req) l s) = Raise (Unreachable (req_type req))
           \<and> fst (snd (dispatch_loop env client_id a (Req req # items) l s))
               = Some (Unreachable (req_type req))"
    proof
      assume "reconnect_enabled l \<longrightarrow> check_cache (cache_heap s a) (req_id req) = Absent"
      from process_item_uncached [OF this, of env client_id]
      have "process_item env client_id a (Req req) l s =
              (Raise (Unreachable (req_type req)), l,
               if should_cache req \<and> reconnect_enabled l then emit (CacheCheck a (req_id req)) s else s)"
        by (simp only: d)
      then show "fst (process_item env client_id a (Req req) l s) = Raise (Unreachable (req_type req))
           \<and> fst (snd (dispatch_loop env client_id a (Req req # items) l s))
               = Some (Unreachable (req_type req))"
        by simp
    qed
    have sc: "should_cache req" using k by (simp add: should_cache_def Let_def)
    have fl: "reconnect_enabled l \<and> check_cache (cache_heap s a) (req_id req) = Failure e0 \<longrightarrow>
           fst (process_item env client_id a (Req req) l s) = Raise e0"
      using sc by (simp add: process_item_def)
    from d [of s] p fl
    show "dispatch env client_id a req l s = (Raise (Unreachable (req_type req)), l, s)
      \<and> ((reconnect_enabled l \<longrightarrow> check_cache (cache_heap s a) (req_id req) = Absent) \<longrightarrow>
           fst (process_item env client_id a (Req req) l s) = Raise (Unreachable (req_type req))
           \<and> fst (snd (dispatch_loop env client_id a (Req req # items) l s))
               = Some (Unreachable (req_type req)))
      \<and> (reconnect_enabled l \<and> check_cache (cache_heap s a) (req_id req) = Failure e0 \<longrightarrow>
           fst (process_item env client_id a (Req req) l s) = Raise e0)"
      by (intro conjI)
  qed
  have h: "propagate_error_in_context env e ctx = (recoverable, ctx1) \<longrightarrow>
        handle_fault env a e ctx l s =
          (if \<not> recoverable \<or> invalidate_refused env e (cache_heap s a)
           then (ctx1\<lparr>code := Some FAILED_PRECONDITION\<rparr>, l\<lparr>cleanup_requested := True\<rparr>,
                 s\<lparr>cache_heap := (cache_heap s)(a := (cache_heap s a)\<lparr>broken := Some e\<rparr>),
                   trace := trace s @ [CacheInvalidate a e]\<rparr>)
           else (ctx1, l,
                 s\<lparr>cache_heap := (cache_heap s)(a := (cache_heap s a)\<lparr>broken := Some e\<rparr>),
                   trace := trace s @ [CacheInvalidate a e]\<rparr>))
        \<and> check_cache (cache_heap (snd (snd (handle_fault env a e ctx l s))) a) i = Failure e
        \<and> (\<not> recoverable \<or> invalidate_refused env e (cache_heap s a) \<longrightarrow>
             teardown_wait client_id (fst (snd (handle_fault env a e ctx l s)))
               (snd (snd (handle_fault env a e ctx l s)))
             = snd (snd (handle_fault env a e ctx l s)))"
    by (simp add: handle_fault_def invalidate_def check_cache_def teardown_wait_def)
  have dp: "metadata_dict c ''client_id'' = Some client_id
        \<and> DataServicer_init env client_id c start_time t0 = (True, c1, t1)
        \<and> get_response_cache client_id t1 = (a, t2)
        \<and> dispatch_loop env client_id a items
             \<lparr>cleanup_requested = False, reconnect_enabled = True\<rparr> t2 = (out, Some e, l3, t3)
        \<and> handle_fault env a e c1 l3 t3 = (c2, l4, t4) \<longrightarrow>
        Datapath env c start_time items others t0 =
          (out, c2,
           teardown_locked env client_id start_time (others (teardown_wait client_id l4 t4)))"
    using Datapath_accepted [of c client_id env start_time t0 c1 t1 a t2 items out "Some e" l3 t3
            c2 l4 t4 others]
    by simp
  show ?thesis by (intro conjI) (rule u h dp)+
qed

theorem unrecognized_request_and_faults_witness:
  "req_type (example_request 3 ''task'' 0) \<notin> {Some ''init'', Some ''get'', Some ''put'',
       Some ''release'', Some ''connection_info'', Some ''prep_runtime_env'',
       Some ''connection_cleanup'', Some ''acknowledge''}
   \<and> check_cache (cache_heap (example_servicer 1) 0) (req_id (example_request 3 ''task'' 0)) = Absent
   \<and> fst (process_item example_env ''c1'' 0 (Req (example_request 3 ''task'' 0))
            \<lparr>cleanup_requested = False, reconnect_enabled = True\<rparr> (example_servicer 1))
       = Raise (Unreachable (Some ''task''))
   \<and> reconnect_grace_periods (example_servicer 1) ''c1'' = Some 30
   \<and> code (fst (handle_fault example_env 0 (Unreachable (Some ''task'')) (example_ctx ''False'')
               \<lparr>cleanup_requested = False, reconnect_enabled = True\<rparr> (example_servicer 1)))
       = Some FAILED_PRECONDITION
   \<and> cleanup_requested
        (fst (snd (handle_fault example_env 0 (Unreachable (Some ''task'')) (example_ctx ''False'')
               \<lparr>cleanup_requested = False, reconnect_enabled = True\<rparr> (example_servicer 1))))
   \<and> teardown_wait ''c1''
        (fst (snd (handle_fault example_env 0 (Unreachable (Some ''task'')) (example_ctx ''False'')
               \<lparr>cleanup_requested = False, reconnect_enabled = True\<rparr> (example_servicer 1))))
        (snd (snd (handle_fault example_env 0 (Unreachable (Some ''task'')) (example_ctx ''False'')
               \<lparr>cleanup_requested = False, reconnect_enabled = True\<rparr> (example_servicer 1))))
       = snd (snd (handle_fault example_env 0 (Unreachable (Some ''task'')) (example_ctx ''False'')
               \<lparr>cleanup_requested = False, reconnect_enabled = True\<rparr> (example_servicer 1)))
   \<and> trace (snd (snd (snd (Datapath example_env (example_ctx ''False'') 7
               [Req (example_request 1 ''init'' 30), Req (example_request 3 ''task'' 0)] id
               (new_servicer 0)))))
       = [LockAcquire, CounterWrite 1, LockRelease,
          CacheCheck 0 1, BackendCall (Init ''x'' 30), LockAcquire, LockRelease, CacheUpdate 0 1,
          CacheCheck 0 3, CacheInvalidate 0 (Unreachable (Some ''task'')),
          LockAcquire, BackendCall (release_all ''c1''), CounterWrite 0, RayShutdown, LockRelease]
   \<and> code (fst (snd (Datapath example_env (example_ctx ''False'') 7
               [Req (example_request 1 ''init'' 30), Req (example_request 3 ''task'' 0)] id
               (new_servicer 0))))
       = Some FAILED_PRECONDITION"
proof -
  let ?L = "\<lparr>cleanup_requested = False, reconnect_enabled = True\<rparr>"
  let ?task = "example_request 3 ''task'' 0"
  let ?e = "Unreachable (Some ''task'')"
  let ?H = "handle_fault example_env 0 ?e (example_ctx ''False'') ?L (example_servicer 1)"
  have k: "req_type ?task \<notin> {Some ''init'', Some ''get'', Some ''put'',
       Some ''release'', Some ''connection_info'', Some ''prep_runtime_env'',
       Some ''connection_cleanup'', Some ''acknowledge''}"
    by simp
  have ab: "check_cache (cache_heap (example_servicer 1) 0) (req_id ?task) = Absent"
    by (simp add: check_cache_def example_servicer_fields empty_cache_def)
  have g: "reconnect_grace_periods (example_servicer 1) ''c1'' = Some 30"
    by (simp add: example_facts)
  have pr: "propagate_error_in_context example_env ?e (example_ctx ''False'')
              = (False, (example_ctx ''False'')\<lparr>code := Some FAILED_PRECONDITION\<rparr>)"
    by (simp add: example_env_def)
  note U = unrecognized_request_and_faults
             [where req = ?task and env = example_env and client_id = "''c1''" and a = 0
                and l = ?L and s = "example_servicer 1" and items = "[]", THEN conjunct1]
  have raise: "fst (process_item example_env ''c1'' 0 (Req ?task) ?L (example_servicer 1)) = Raise ?e"
    using U k ab by simp
  note F = unrecognized_request_and_faults
             [where env = example_env and client_id = "''c1''" and a = 0 and e = ?e
                and ctx = "example_ctx ''False''" and recoverable = False
                and ?ctx1.0 = "(example_ctx ''False'')\<lparr>code := Some FAILED_PRECONDITION\<rparr>"
                and l = ?L and s = "example_servicer 1", THEN conjunct2, THEN conjunct1]
  note F0 = F [THEN mp, OF pr]
  have hf: "code (fst ?H) = Some FAILED_PRECONDITION" "cleanup_requested (fst (snd ?H))"
    using F0 [THEN conjunct1] by simp_all
  have tw: "teardown_wait ''c1'' (fst (snd ?H)) (snd (snd ?H)) = snd (snd ?H)"
    using F0 [THEN conjunct2, THEN conjunct2] by simp
  have run: "trace (snd (snd (snd (Datapath example_env (example_ctx ''False'') 7
               [Req (example_request 1 ''init'' 30), Req ?task] id (new_servicer 0)))))
       = [LockAcquire, CounterWrite 1, LockRelease,
          CacheCheck 0 1, BackendCall (Init ''x'' 30), LockAcquire, LockRelease, CacheUpdate 0 1,
          CacheCheck 0 3, CacheInvalidate 0 ?e,
          LockAcquire, BackendCall (release_all ''c1''), CounterWrite 0, RayShutdown, LockRelease]"
    by (simp add: example_run example_teardown)
  let ?c = "example_ctx ''False''"
  let ?items = "[Req (example_request 1 ''init'' 30), Req ?task]"
  let ?I = "DataServicer_init example_env ''c1'' ?c 7 (new_servicer (0::nat))"
  let ?G = "get_response_cache ''c1'' (snd (snd ?I))"
  let ?Lp = "dispatch_loop example_env ''c1'' 0 ?items ?L (snd ?G)"
  let ?Hf = "handle_fault example_env 0 ?e ?c (fst (snd (snd ?Lp))) (snd (snd (snd ?Lp)))"
  have md: "metadata_dict ?c ''client_id'' = Some ''c1''"
    by (simp add: metadata_dict_def example_ctx_def)
  have i: "?I = (True, ?c, snd (snd ?I))"
    by (simp add: prod_eq_iff DataServicer_init_def Let_def threshold_example reconnecting_example
          new_servicer_def)
  have gc: "?G = (0, snd ?G)"
    by (simp add: prod_eq_iff get_response_cache_def DataServicer_init_def Let_def threshold_example
          reconnecting_example new_servicer_def)
  have lp: "?Lp = (fst ?Lp, Some ?e, fst (snd (snd ?Lp)), snd (snd (snd ?Lp)))"
    by (simp add: prod_eq_iff get_response_cache_def DataServicer_init_def threshold_example
          reconnecting_example example_run)
  have h: "?Hf = (fst ?Hf, fst (snd ?Hf), snd (snd ?Hf))" by simp
  have "Datapath example_env ?c 7 ?items id (new_servicer 0) =
          (fst ?Lp, fst ?Hf,
           teardown_locked example_env ''c1'' 7 (id (teardown_wait ''c1'' (fst (snd ?Hf)) (snd (snd ?Hf)))))"
    using unrecognized_request_and_faults
             [where env = example_env and client_id = "''c1''" and a = 0 and e = ?e and c = ?c
                and start_time = 7 and ?t0.0 = "new_servicer 0" and ?c1.0 = ?c
                and ?t1.0 = "snd (snd ?I)" and ?t2.0 = "snd ?G" and items = ?items
                and out = "fst ?Lp" and ?l3.0 = "fst (snd (snd ?Lp))" and ?t3.0 = "snd (snd (snd ?Lp))"
                and ?c2.0 = "fst ?Hf" and ?l4.0 = "fst (snd ?Hf)" and ?t4.0 = "snd (snd ?Hf)"
                and others = id,
              THEN conjunct2, THEN conjunct2, THEN mp, OF conjI [OF md conjI [OF i conjI [OF gc conjI [OF lp h]]]]]
    .
  then have fc: "code (fst (snd (Datapath example_env ?c 7 ?items id (new_servicer 0))))
                   = Some FAILED_PRECONDITION"
    by (simp add: handle_fault_def invalidate_def example_env_def)
  show ?thesis by (intro conjI) (rule k ab raise g hf tw run fc)+
qed

end
